theory Spec2Isabelle
  imports Complex_Main "HOL-Library.Word"
begin

section \<open>JavaScript strings and values\<close>

text \<open>
  A JavaScript string is a sequence of UTF-16 code units; \<open>length\<close> counts code units.
  String literals of the source are written \<open>lit ''...''\<close>.
\<close>

type_synonym jsstring = "16 word list"

definition lit :: "string \<Rightarrow> jsstring" where
  "lit s = map of_char s"

text \<open>
  \<open>String.prototype.trim\<close> removes the ECMAScript WhiteSpace and LineTerminator code
  points from both ends: TAB, LF, VT, FF, CR, SPACE, NBSP, U+1680, U+2000..U+200A,
  U+2028, U+2029, U+202F, U+205F, U+3000 and U+FEFF.
\<close>

definition isWhiteSpace :: "16 word \<Rightarrow> bool" where
  "isWhiteSpace c =
     (c \<in> {0x09, 0x0A, 0x0B, 0x0C, 0x0D, 0x20, 0xA0, 0x1680, 0x2028, 0x2029,
            0x202F, 0x205F, 0x3000, 0xFEFF}
      \<or> (0x2000 \<le> c \<and> c \<le> 0x200A))"

definition trim :: "jsstring \<Rightarrow> jsstring" where
  "trim s = rev (dropWhile isWhiteSpace (rev (dropWhile isWhiteSpace s)))"

text \<open>\<open>s.includes(w)\<close>: \<open>w\<close> occurs in \<open>s\<close> as a contiguous run of code units.\<close>

fun startsWith :: "'a list \<Rightarrow> 'a list \<Rightarrow> bool" where
  "startsWith s [] = True"
| "startsWith [] (c # w) = False"
| "startsWith (d # s) (c # w) = (d = c \<and> startsWith s w)"

fun includes_js :: "'a list \<Rightarrow> 'a list \<Rightarrow> bool" where
  "includes_js [] w = (w = [])"
| "includes_js (d # s) w = (startsWith (d # s) w \<or> includes_js s w)"

text \<open>
  Number-to-string conversion of an integral Number below \<open>2^53\<close> in magnitude, as
  \<open>Date.now()\<close> returns (a time value is at most 8.64e15 in magnitude): decimal
  digits, with a leading minus sign below zero.
\<close>

definition digitChar :: "nat \<Rightarrow> 16 word" where
  "digitChar d = of_nat (48 + d)"

fun digits :: "nat \<Rightarrow> jsstring" where
  "digits n = (if n < 10 then [digitChar n] else digits (n div 10) @ [digitChar (n mod 10)])"

declare digits.simps [simp del]

definition toString :: "int \<Rightarrow> jsstring" where
  "toString i = (if i < 0 then lit ''-'' @ digits (nat (- i)) else digits (nat i))"

text \<open>
  Values as \<open>response.json()\<close> and property reads produce them. A JSON number is kept
  as a rational; arrays and objects carry their members.
\<close>

datatype jsval =
    JUndefined
  | JNull
  | JBool bool
  | JNum rat
  | JStr jsstring
  | JArr "jsval list"
  | JObj "(jsstring \<times> jsval) list"

text \<open>ToBoolean, as used by \<open>!x\<close> and \<open>x || y\<close>.\<close>

fun truthy :: "jsval \<Rightarrow> bool" where
  "truthy JUndefined = False"
| "truthy JNull = False"
| "truthy (JBool b) = b"
| "truthy (JNum n) = (n \<noteq> 0)"
| "truthy (JStr s) = (s \<noteq> [])"
| "truthy (JArr xs) = True"
| "truthy (JObj fs) = True"

definition js_or :: "jsval \<Rightarrow> jsval \<Rightarrow> jsval" where
  "js_or a b = (if truthy a then a else b)"

datatype exn = FetchRejected | JsonSyntaxError | TypeError

text \<open>
  \<open>data.k\<close> for the property names this program reads (\<open>transactionHash\<close>, \<open>txId\<close>,
  \<open>error\<close>, \<open>valid\<close>, \<open>certificate\<close>, \<open>status\<close>, \<open>history\<close>, \<open>proposals\<close>; none of them
  is defined on a built-in prototype): reading a property of \<open>null\<close> or \<open>undefined\<close>
  throws a TypeError, a missing property is \<open>undefined\<close>.
\<close>

fun get_prop :: "jsval \<Rightarrow> jsstring \<Rightarrow> exn + jsval" where
  "get_prop JUndefined k = Inl TypeError"
| "get_prop JNull k = Inl TypeError"
| "get_prop (JObj fs) k = Inr (case map_of fs k of None \<Rightarrow> JUndefined | Some v \<Rightarrow> v)"
| "get_prop v k = Inr JUndefined"

section \<open>Requests, responses and the effects of a handler\<close>

text \<open>
  The REST calls the components issue:
  \<^item> \<open>PostProposals title description walletAddress\<close>: POST /api/proposals
  \<^item> \<open>GetProposals\<close>: GET /api/proposals
  \<^item> \<open>GetProposal id\<close>: GET /api/proposals/:id
  \<^item> \<open>PostVote proposalId vote walletAddress\<close>: POST /api/vote
  \<^item> \<open>PostAttendance walletAddress timestamp\<close>: POST /api/attendance
  \<^item> \<open>GetAttendance walletAddress\<close>: GET /api/attendance?walletAddress=...
  \<^item> \<open>PostCertificateVerify certificateId\<close>: POST /api/certificate/verify
\<close>

datatype request =
    PostProposals jsstring jsstring jsval
  | GetProposals
  | GetProposal jsval
  | PostVote jsval jsstring jsval
  | PostAttendance jsval jsstring
  | GetAttendance jsval
  | PostCertificateVerify jsstring

fun isPost :: "request \<Rightarrow> bool" where
  "isPost (PostProposals t d w) = True"
| "isPost (PostVote p v w) = True"
| "isPost (PostAttendance w t) = True"
| "isPost (PostCertificateVerify c) = True"
| "isPost r = False"

text \<open>
  A response has its \<open>ok\<close> flag (status 200..299) and the result of \<open>response.json()\<close>:
  \<open>None\<close> when the body is not JSON and the promise rejects. The \<open>fetch\<close> promise itself
  either rejects or resolves to a response.
\<close>

record response =
  ok :: bool
  body :: "jsval option"

datatype outcome = Rejected | Responded response

datatype msg_type = Success | Error

record message =
  mtype :: msg_type
  mtext :: jsval

text \<open>
  What a handler does, in program order: state setter calls, \<open>fetch\<close> calls and
  \<open>console.error\<close> calls (with the caught exception, when one is passed).
\<close>

datatype event =
    PreventDefault
  | SetMessage "message option"
  | SetTransactionHash jsval
  | SetIsSubmitting bool
  | SetIsVoting bool
  | SetIsMarking bool
  | SetIsVerifying bool
  | SetIsLoading bool
  | SetTitle jsstring
  | SetDescription jsstring
  | SetProposals jsval
  | SetSelectedProposal jsval
  | SetAttendanceStatus jsval
  | SetAttendanceHistory jsval
  | SetCertificateDetails jsval
  | Fetch request
  | ConsoleError jsstring "exn option"

text \<open>
  \<open>try { body } catch (error) { handler } finally { fin }\<close>: the body yields its effects
  and the exception it threw, if any.
\<close>

definition try_catch_finally ::
  "event list \<times> exn option \<Rightarrow> (exn \<Rightarrow> event list) \<Rightarrow> event list \<Rightarrow> event list" where
  "try_catch_finally t handler fin =
     fst t @ (case snd t of None \<Rightarrow> [] | Some e \<Rightarrow> handler e) @ fin"

text \<open>The \<open>useState\<close> variables the claims read, and the state after a run of setter calls.\<close>

record ui_state =
  message :: "message option"
  transactionHash :: jsval
  isSubmitting :: bool
  isVoting :: bool
  isMarking :: bool
  isVerifying :: bool

fun apply_event :: "event \<Rightarrow> ui_state \<Rightarrow> ui_state" where
  "apply_event (SetMessage m) s = s\<lparr>message := m\<rparr>"
| "apply_event (SetTransactionHash h) s = s\<lparr>transactionHash := h\<rparr>"
| "apply_event (SetIsSubmitting b) s = s\<lparr>isSubmitting := b\<rparr>"
| "apply_event (SetIsVoting b) s = s\<lparr>isVoting := b\<rparr>"
| "apply_event (SetIsMarking b) s = s\<lparr>isMarking := b\<rparr>"
| "apply_event (SetIsVerifying b) s = s\<lparr>isVerifying := b\<rparr>"
| "apply_event e s = s"

definition run :: "event list \<Rightarrow> ui_state \<Rightarrow> ui_state" where
  "run evs s = fold apply_event evs s"

fun fetched :: "event \<Rightarrow> request option" where
  "fetched (Fetch r) = Some r"
| "fetched e = None"

definition fetches :: "event list \<Rightarrow> request list" where
  "fetches evs = List.map_filter fetched evs"

definition errorMessage :: "jsval \<Rightarrow> message option" where
  "errorMessage t = Some \<lparr>mtype = Error, mtext = t\<rparr>"

definition successMessage :: "jsval \<Rightarrow> message option" where
  "successMessage t = Some \<lparr>mtype = Success, mtext = t\<rparr>"

definition networkError :: "message option" where
  "networkError =
     errorMessage (JStr (lit ''Network error. Please check your connection and try again.''))"

definition connectWalletFirst :: "message option" where
  "connectWalletFirst = errorMessage (JStr (lit ''Please connect your wallet first''))"

text \<open>
  \<open>data.transactionHash || data.txId || 'TX-' + Date.now()\<close>, evaluated left to right;
  \<open>now\<close> is the value \<open>Date.now()\<close> returns.
\<close>

definition transactionHashOf :: "jsval \<Rightarrow> int \<Rightarrow> exn + jsval" where
  "transactionHashOf data now =
     (case get_prop data (lit ''transactionHash'') of
        Inl e \<Rightarrow> Inl e
      | Inr h \<Rightarrow>
          if truthy h then Inr h
          else (case get_prop data (lit ''txId'') of
                  Inl e \<Rightarrow> Inl e
                | Inr t \<Rightarrow>
                    if truthy t then Inr t
                    else Inr (JStr (lit ''TX-'' @ toString now))))"

section \<open>ProposalForm\<close>

text \<open>
  \<open>validateForm\<close> reads the \<open>title\<close> and \<open>description\<close> state of the current render; it
  returns its setter calls and its boolean result.
\<close>

definition validateForm :: "jsstring \<Rightarrow> jsstring \<Rightarrow> event list \<times> bool" where
  "validateForm title description =
     (if trim title = [] then
        ([SetMessage (errorMessage (JStr (lit ''Please enter a proposal title'')))], False)
      else if length (trim title) < 5 then
        ([SetMessage (errorMessage (JStr (lit ''Title must be at least 5 characters'')))], False)
      else if trim description = [] then
        ([SetMessage (errorMessage (JStr (lit ''Please enter a proposal description'')))], False)
      else if length (trim description) < 20 then
        ([SetMessage (errorMessage (JStr (lit ''Description must be at least 20 characters'')))],
         False)
      else ([], True))"

text \<open>The \<open>try\<close> block of \<open>handleSubmit\<close>; \<open>outcome\<close> is what the awaited \<open>fetch\<close> does.\<close>

definition handleSubmit_try ::
  "jsval \<Rightarrow> jsstring \<Rightarrow> jsstring \<Rightarrow> int \<Rightarrow> outcome \<Rightarrow> event list \<times> exn option" where
  "handleSubmit_try walletAddress title description now outcome =
     (let pre = [SetIsSubmitting True,
                 Fetch (PostProposals (trim title) (trim description) walletAddress)]
      in case outcome of
        Rejected \<Rightarrow> (pre, Some FetchRejected)
      | Responded response \<Rightarrow>
          (case body response of
             None \<Rightarrow> (pre, Some JsonSyntaxError)
           | Some data \<Rightarrow>
               if ok response then
                 (let shown = pre @ [SetMessage (successMessage
                                       (JStr (lit ''Proposal created successfully!'')))]
                  in case transactionHashOf data now of
                       Inl e \<Rightarrow> (shown, Some e)
                     | Inr h \<Rightarrow>
                         (shown @ [SetTransactionHash h, SetTitle [], SetDescription []], None))
               else
                 (case get_prop data (lit ''error'') of
                    Inl e \<Rightarrow> (pre, Some e)
                  | Inr err \<Rightarrow>
                      (pre @ [SetMessage (errorMessage (js_or err
                                (JStr (lit ''Failed to create proposal. Please try again.''))))],
                       None))))"

definition handleSubmit ::
  "jsval \<Rightarrow> jsstring \<Rightarrow> jsstring \<Rightarrow> int \<Rightarrow> outcome \<Rightarrow> event list" where
  "handleSubmit walletAddress title description now outcome =
     [PreventDefault, SetMessage None, SetTransactionHash JNull] @
     (if \<not> truthy walletAddress then [SetMessage connectWalletFirst]
      else
        (case validateForm title description of
           (shown, False) \<Rightarrow> shown
         | (shown, True) \<Rightarrow>
             shown @
             try_catch_finally
               (handleSubmit_try walletAddress title description now outcome)
               (\<lambda>e. [ConsoleError (lit ''Error creating proposal:'') (Some e),
                     SetMessage networkError])
               [SetIsSubmitting False]))"

text \<open>The submit button: \<open>disabled={isSubmitting || !walletAddress}\<close>.\<close>

definition submitDisabled :: "jsval \<Rightarrow> ui_state \<Rightarrow> bool" where
  "submitDisabled walletAddress s = (isSubmitting s \<or> \<not> truthy walletAddress)"

text \<open>The state of a freshly mounted component (\<open>useState(null)\<close>, \<open>useState(false)\<close>).\<close>

definition initial_ui :: ui_state where
  "initial_ui =
     \<lparr>message = None, transactionHash = JNull, isSubmitting = False, isVoting = False,
      isMarking = False, isVerifying = False\<rparr>"

section \<open>VotingPanel\<close>

definition fetchProposals :: "outcome \<Rightarrow> event list" where
  "fetchProposals outcome =
     try_catch_finally
       (let pre = [SetIsLoading True, Fetch GetProposals]
        in case outcome of
          Rejected \<Rightarrow> (pre, Some FetchRejected)
        | Responded response \<Rightarrow>
            if ok response then
              (case body response of
                 None \<Rightarrow> (pre, Some JsonSyntaxError)
               | Some data \<Rightarrow>
                   (case get_prop data (lit ''proposals'') of
                      Inl e \<Rightarrow> (pre, Some e)
                    | Inr ps \<Rightarrow> (pre @ [SetProposals (js_or ps (JArr []))], None)))
            else (pre @ [ConsoleError (lit ''Failed to fetch proposals'') None], None))
       (\<lambda>e. [ConsoleError (lit ''Error fetching proposals:'') (Some e)])
       [SetIsLoading False]"

definition fetchProposalDetails :: "jsval \<Rightarrow> outcome \<Rightarrow> event list" where
  "fetchProposalDetails proposalId outcome =
     try_catch_finally
       (let pre = [Fetch (GetProposal proposalId)]
        in case outcome of
          Rejected \<Rightarrow> (pre, Some FetchRejected)
        | Responded response \<Rightarrow>
            if ok response then
              (case body response of
                 None \<Rightarrow> (pre, Some JsonSyntaxError)
               | Some data \<Rightarrow> (pre @ [SetSelectedProposal data], None))
            else (pre, None))
       (\<lambda>e. [ConsoleError (lit ''Error fetching proposal details:'') (Some e)])
       []"

text \<open>
  The \<open>try\<close> block of \<open>handleVote\<close>. \<open>outcome\<close> answers the POST; \<open>detailsOutcome\<close> and
  \<open>listOutcome\<close> answer the two refreshing GET requests of the success branch. The
  success text is the template \<open>Vote "${vote}" submitted successfully!\<close> (0x22 is the
  double quote).
\<close>

definition handleVote_try ::
  "jsval \<Rightarrow> jsval \<Rightarrow> jsstring \<Rightarrow> int \<Rightarrow> outcome \<Rightarrow> outcome \<Rightarrow> outcome
     \<Rightarrow> event list \<times> exn option" where
  "handleVote_try walletAddress proposalId vote now outcome detailsOutcome listOutcome =
     (let pre = [SetIsVoting True, Fetch (PostVote proposalId vote walletAddress)]
      in case outcome of
        Rejected \<Rightarrow> (pre, Some FetchRejected)
      | Responded response \<Rightarrow>
          (case body response of
             None \<Rightarrow> (pre, Some JsonSyntaxError)
           | Some data \<Rightarrow>
               if ok response then
                 (let shown = pre @ [SetMessage (successMessage
                        (JStr (lit ''Vote '' @ [0x22] @ vote @ [0x22] @
                               lit '' submitted successfully!'')))]
                  in case transactionHashOf data now of
                       Inl e \<Rightarrow> (shown, Some e)
                     | Inr h \<Rightarrow>
                         (shown @ [SetTransactionHash h] @
                          fetchProposalDetails proposalId detailsOutcome @
                          fetchProposals listOutcome, None))
               else
                 (case get_prop data (lit ''error'') of
                    Inl e \<Rightarrow> (pre, Some e)
                  | Inr err \<Rightarrow>
                      (pre @ [SetMessage (errorMessage (js_or err
                                (JStr (lit ''Failed to submit vote. Please try again.''))))],
                       None))))"

definition handleVote ::
  "jsval \<Rightarrow> jsval \<Rightarrow> jsstring \<Rightarrow> int \<Rightarrow> outcome \<Rightarrow> outcome \<Rightarrow> outcome \<Rightarrow> event list" where
  "handleVote walletAddress proposalId vote now outcome detailsOutcome listOutcome =
     [SetMessage None, SetTransactionHash JNull] @
     (if \<not> truthy walletAddress then [SetMessage connectWalletFirst]
      else
        try_catch_finally
          (handleVote_try walletAddress proposalId vote now outcome detailsOutcome listOutcome)
          (\<lambda>e. [ConsoleError (lit ''Error voting:'') (Some e), SetMessage networkError])
          [SetIsVoting False])"

text \<open>
  The progress bars of the selected proposal,
  \<open>((yesVotes || 0) / Math.max((yesVotes || 0) + (noVotes || 0), 1)) * 100\<close>.
  \<open>yesVotes\<close> and \<open>noVotes\<close> are numbers of the API response or missing (\<open>None\<close>);
  \<open>x || 0\<close> replaces a missing or zero count by 0. The sum, the quotient and the
  product by 100 are the host's double operations, the parameters \<open>hostAdd\<close>,
  \<open>hostQuotient\<close> and \<open>hostTimes100\<close>. A division by zero, which JavaScript answers
  with \<open>NaN\<close> or an infinity, is \<open>None\<close>.
\<close>

definition checked_div :: "('a \<Rightarrow> 'b \<Rightarrow> 'q) \<Rightarrow> 'a \<Rightarrow> 'b::zero \<Rightarrow> 'q option" where
  "checked_div hostQuotient a b = (if b = 0 then None else Some (hostQuotient a b))"

definition orZero :: "rat option \<Rightarrow> rat" where
  "orZero x = (case x of None \<Rightarrow> 0 | Some n \<Rightarrow> n)"

definition barDenominator :: "(rat \<Rightarrow> rat \<Rightarrow> rat) \<Rightarrow> rat option \<Rightarrow> rat option \<Rightarrow> rat" where
  "barDenominator hostAdd yesVotes noVotes =
     max (hostAdd (orZero yesVotes) (orZero noVotes)) 1"

definition yesBarWidth ::
  "(rat \<Rightarrow> rat \<Rightarrow> rat) \<Rightarrow> (rat \<Rightarrow> rat \<Rightarrow> 'q) \<Rightarrow> ('q \<Rightarrow> 'w)
     \<Rightarrow> rat option \<Rightarrow> rat option \<Rightarrow> 'w option" where
  "yesBarWidth hostAdd hostQuotient hostTimes100 yesVotes noVotes =
     map_option hostTimes100
       (checked_div hostQuotient (orZero yesVotes) (barDenominator hostAdd yesVotes noVotes))"

definition noBarWidth ::
  "(rat \<Rightarrow> rat \<Rightarrow> rat) \<Rightarrow> (rat \<Rightarrow> rat \<Rightarrow> 'q) \<Rightarrow> ('q \<Rightarrow> 'w)
     \<Rightarrow> rat option \<Rightarrow> rat option \<Rightarrow> 'w option" where
  "noBarWidth hostAdd hostQuotient hostTimes100 yesVotes noVotes =
     map_option hostTimes100
       (checked_div hostQuotient (orZero noVotes) (barDenominator hostAdd yesVotes noVotes))"

section \<open>AttendancePanel\<close>

definition fetchAttendanceStatus :: "jsval \<Rightarrow> outcome \<Rightarrow> event list" where
  "fetchAttendanceStatus walletAddress outcome =
     try_catch_finally
       (let pre = [Fetch (GetAttendance walletAddress)]
        in case outcome of
          Rejected \<Rightarrow> (pre, Some FetchRejected)
        | Responded response \<Rightarrow>
            if ok response then
              (case body response of
                 None \<Rightarrow> (pre, Some JsonSyntaxError)
               | Some data \<Rightarrow>
                   (case get_prop data (lit ''status'') of
                      Inl e \<Rightarrow> (pre, Some e)
                    | Inr st \<Rightarrow>
                        (case get_prop data (lit ''history'') of
                           Inl e \<Rightarrow> (pre @ [SetAttendanceStatus st], Some e)
                         | Inr h \<Rightarrow>
                             (pre @ [SetAttendanceStatus st,
                                     SetAttendanceHistory (js_or h (JArr []))], None))))
            else (pre, None))
       (\<lambda>e. [ConsoleError (lit ''Error fetching attendance status:'') (Some e)])
       []"

text \<open>
  The \<open>try\<close> block of \<open>handleMarkAttendance\<close>; \<open>isoNow\<close> is \<open>new Date().toISOString()\<close>,
  \<open>statusOutcome\<close> answers the refreshing GET of the success branch.
\<close>

definition handleMarkAttendance_try ::
  "jsval \<Rightarrow> jsstring \<Rightarrow> int \<Rightarrow> outcome \<Rightarrow> outcome \<Rightarrow> event list \<times> exn option" where
  "handleMarkAttendance_try walletAddress isoNow now outcome statusOutcome =
     (let pre = [SetIsMarking True, Fetch (PostAttendance walletAddress isoNow)]
      in case outcome of
        Rejected \<Rightarrow> (pre, Some FetchRejected)
      | Responded response \<Rightarrow>
          (case body response of
             None \<Rightarrow> (pre, Some JsonSyntaxError)
           | Some data \<Rightarrow>
               if ok response then
                 (let shown = pre @ [SetMessage (successMessage
                                       (JStr (lit ''Attendance marked successfully!'')))]
                  in case transactionHashOf data now of
                       Inl e \<Rightarrow> (shown, Some e)
                     | Inr h \<Rightarrow>
                         (shown @ [SetTransactionHash h] @
                          fetchAttendanceStatus walletAddress statusOutcome, None))
               else
                 (case get_prop data (lit ''error'') of
                    Inl e \<Rightarrow> (pre, Some e)
                  | Inr err \<Rightarrow>
                      (pre @ [SetMessage (errorMessage (js_or err
                                (JStr (lit ''Failed to mark attendance. Please try again.''))))],
                       None))))"

definition handleMarkAttendance ::
  "jsval \<Rightarrow> jsstring \<Rightarrow> int \<Rightarrow> outcome \<Rightarrow> outcome \<Rightarrow> event list" where
  "handleMarkAttendance walletAddress isoNow now outcome statusOutcome =
     [SetMessage None, SetTransactionHash JNull] @
     (if \<not> truthy walletAddress then [SetMessage connectWalletFirst]
      else
        try_catch_finally
          (handleMarkAttendance_try walletAddress isoNow now outcome statusOutcome)
          (\<lambda>e. [ConsoleError (lit ''Error marking attendance:'') (Some e),
                SetMessage networkError])
          [SetIsMarking False])"

section \<open>CertificatePanel\<close>

definition handleVerify_try :: "jsstring \<Rightarrow> outcome \<Rightarrow> event list \<times> exn option" where
  "handleVerify_try certificateId outcome =
     (let pre = [SetIsVerifying True, Fetch (PostCertificateVerify (trim certificateId))]
      in case outcome of
        Rejected \<Rightarrow> (pre, Some FetchRejected)
      | Responded response \<Rightarrow>
          (case body response of
             None \<Rightarrow> (pre, Some JsonSyntaxError)
           | Some data \<Rightarrow>
               if ok response then
                 (case get_prop data (lit ''valid'') of
                    Inl e \<Rightarrow> (pre, Some e)
                  | Inr valid \<Rightarrow>
                      if truthy valid then
                        (let shown = pre @ [SetMessage (successMessage
                               (JStr (lit ''Certificate verified successfully!'')))]
                         in case get_prop data (lit ''certificate'') of
                              Inl e \<Rightarrow> (shown, Some e)
                            | Inr c \<Rightarrow> (shown @ [SetCertificateDetails c], None))
                      else
                        (pre @ [SetMessage (errorMessage
                                  (JStr (lit ''Certificate not found or invalid'')))], None))
               else
                 (case get_prop data (lit ''error'') of
                    Inl e \<Rightarrow> (pre, Some e)
                  | Inr err \<Rightarrow>
                      (pre @ [SetMessage (errorMessage (js_or err
                                (JStr (lit ''Failed to verify certificate. Please try again.''))))],
                       None))))"

definition handleVerify :: "jsstring \<Rightarrow> outcome \<Rightarrow> event list" where
  "handleVerify certificateId outcome =
     [PreventDefault, SetMessage None, SetCertificateDetails JNull] @
     (if trim certificateId = [] then
        [SetMessage (errorMessage (JStr (lit ''Please enter a certificate ID'')))]
      else
        try_catch_finally
          (handleVerify_try certificateId outcome)
          (\<lambda>e. [ConsoleError (lit ''Error verifying certificate:'') (Some e),
                SetMessage networkError])
          [SetIsVerifying False])"

section \<open>The vanilla application: Store, BlockchainService, AIService, Components\<close>

text \<open>
  Numbers are IEEE doubles. An integral Number is kept as its integer value: the
  doubles hold every integer up to \<open>2^53\<close> in magnitude and, above, only the integers
  whose 53 leading bits carry all their value. \<open>roundToDouble\<close> is the double nearest
  to an integer (a tie goes to the even significand), for results below \<open>2^1024\<close> in
  magnitude. On integral Numbers \<open>a + b\<close> is the exact sum rounded so, and \<open>x++\<close> stores
  \<open>x + 1\<close>.
\<close>

fun bitLength :: "nat \<Rightarrow> nat" where
  "bitLength n = (if n = 0 then 0 else Suc (bitLength (n div 2)))"

declare bitLength.simps [simp del]

definition roundToDouble :: "int \<Rightarrow> int" where
  "roundToDouble i =
     (let a = nat \<bar>i\<bar>;
          q = 2 ^ (bitLength a - 53);
          m = a div q;
          r = a mod q
      in if 2 * r < q \<or> (2 * r = q \<and> even m)
         then sgn i * int (m * q)
         else sgn i * int ((m + 1) * q))"

definition jsAdd :: "int \<Rightarrow> int \<Rightarrow> int" where
  "jsAdd a b = roundToDouble (a + b)"

definition jsIncrement :: "int \<Rightarrow> int" where
  "jsIncrement x = jsAdd x 1"

text \<open>
  A proposal of \<open>Store.state.proposals\<close>. Ids, vote tallies, quorum and comment counts
  are integral Numbers; \<open>deadline\<close> is a Date, kept as its millisecond value.
\<close>

record proposal =
  proposal_id :: int
  proposal_title :: jsstring
  proposal_description :: jsstring
  creator :: jsstring
  status :: jsstring
  deadline :: int
  votesYes :: int
  votesNo :: int
  quorum :: int
  category :: jsstring
  comments :: int

record transaction =
  tx_type :: jsstring
  target :: jsstring
  hash :: jsstring
  timestamp :: int

record user =
  address :: jsval
  isConnected :: bool
  balance :: rat
  tokenBalance :: rat
  delegatedPower :: rat
  transactions :: "transaction list"

record network =
  blockHeight :: int
  tps :: int
  net_status :: jsstring

record store_state =
  currentPage :: jsstring
  user :: user
  proposals :: "proposal list"
  activeProposalId :: "int option"
  network :: network
  notifications :: "jsval list"
  isLoading :: bool

text \<open>What the vanilla services do besides changing \<open>Store.state\<close>.\<close>

datatype effect =
    Toast jsstring jsstring
  | ConsoleLog jsstring
  | Sleep nat
  | RenderApp

text \<open>\<open>Store.setLoading\<close>, \<open>Store.addTransaction\<close> (\<open>unshift\<close>, then \<open>notifySubscribers\<close>).\<close>

definition setLoading :: "bool \<Rightarrow> store_state \<Rightarrow> store_state" where
  "setLoading b st = st\<lparr>isLoading := b\<rparr>"

definition addTransaction :: "transaction \<Rightarrow> store_state \<Rightarrow> store_state \<times> effect list" where
  "addTransaction tx st =
     (st\<lparr>user := (user st)\<lparr>transactions := tx # transactions (user st)\<rparr>\<rparr>, [RenderApp])"

text \<open>\<open>Array.prototype.find\<close>, by position: the first index whose element satisfies \<open>P\<close>.\<close>

fun findIndex :: "('a \<Rightarrow> bool) \<Rightarrow> 'a list \<Rightarrow> nat option" where
  "findIndex P [] = None"
| "findIndex P (x # xs) =
     (if P x then Some 0 else map_option Suc (findIndex P xs))"

text \<open>
  \<open>BlockchainService.submitVote(proposalId, vote)\<close>, run without interleaving of other
  callbacks at its \<open>await\<close> points. The array elements are distinct objects (as
  \<open>fetchProposals\<close> builds them), so the mutation of the found object is an update at its
  index. \<open>numberToString\<close> is the host's conversion of a Number to a string, which the
  template literal \<open>`Proposal #${proposalId}`\<close> applies; \<open>genId\<close> is
  \<open>Utils.generateId().toUpperCase()\<close>, \<open>now\<close> the time of \<open>new Date()\<close>. The result is the
  new state, the effects in order, and the returned value (\<open>undefined\<close> or \<open>true\<close>).
\<close>

definition submitVote ::
  "(int \<Rightarrow> jsstring) \<Rightarrow> int \<Rightarrow> jsstring \<Rightarrow> jsstring \<Rightarrow> int \<Rightarrow> store_state
     \<Rightarrow> store_state \<times> effect list \<times> jsval" where
  "submitVote numberToString proposalId vote genId now st =
     (if \<not> isConnected (user st) then
        (st, [Toast (lit ''Please connect wallet first'') (lit ''error'')], JUndefined)
      else
        (let st1 = setLoading True st;
             ps = proposals st1;
             ps' = (case findIndex (\<lambda>p. proposal_id p = proposalId) ps of
                      None \<Rightarrow> ps
                    | Some i \<Rightarrow>
                        if vote = lit ''yes''
                        then ps[i := (ps ! i)\<lparr>votesYes := jsIncrement (votesYes (ps ! i))\<rparr>]
                        else ps[i := (ps ! i)\<lparr>votesNo := jsIncrement (votesNo (ps ! i))\<rparr>]);
             st2 = st1\<lparr>proposals := ps'\<rparr>;
             (st3, rendered) =
               addTransaction
                 \<lparr>tx_type = lit ''Vote'', target = lit ''Proposal #'' @ numberToString proposalId,
                  hash = lit ''TX'' @ genId, timestamp = now\<rparr> st2
         in (setLoading False st3,
             [ConsoleLog (lit ''Fetching params...''), Sleep 500,
              ConsoleLog (lit ''Requesting signature...''), Sleep 1500,
              ConsoleLog (lit ''Broadcasting to network...''), Sleep 1000] @
             rendered @
             [Toast (lit ''Vote Confirmed On-Chain!'') (lit ''success''),
              ConsoleLog (lit ''[AI] Analyzing network traffic for burst voting...'')],
             JBool True)))"

text \<open>
  \<open>AIService.getSentiment\<close>. Numbers are IEEE doubles: the model leaves the arithmetic
  open. The score lives in any linearly ordered type \<open>'n\<close> (the doubles without NaN;
  sums of finitely many finite terms never produce NaN here) with whatever \<open>+\<close> and \<open>-\<close>
  the host computes, \<open>fifth\<close> is the value of the literal \<open>0.2\<close>, and \<open>toLowerCase\<close> is
  the host's \<open>String.prototype.toLowerCase\<close>.
\<close>

definition positiveWords :: "jsstring list" where
  "positiveWords = map lit [''upgrade'', ''improve'', ''budget'', ''good'', ''benefit'']"

definition negativeWords :: "jsstring list" where
  "negativeWords = map lit [''cut'', ''remove'', ''restrict'', ''bad'', ''cost'']"

definition getSentiment ::
  "(jsstring \<Rightarrow> jsstring) \<Rightarrow> 'n \<Rightarrow> jsstring \<Rightarrow> 'n::{linorder,zero,one,plus,minus,uminus}" where
  "getSentiment toLowerCase fifth proposalText =
     (let score0 = 0;
          score1 =
            fold (\<lambda>w score. if includes_js (toLowerCase proposalText) w
                             then score + fifth else score) positiveWords score0;
          score2 =
            fold (\<lambda>w score. if includes_js (toLowerCase proposalText) w
                             then score - fifth else score) negativeWords score1
      in min (max score2 (- 1)) 1)"

text \<open>
  \<open>Components.ProposalDetail\<close>: the part that computes the percentages,
  \<open>totalVotes === 0 ? 0 : Math.round((votes / totalVotes) * 100)\<close>. The double quotient
  \<open>votes / totalVotes\<close> and the rounding \<open>Math.round(q * 100)\<close> are the host's
  operations, the parameters \<open>hostQuotient\<close> and \<open>hostRoundPercent\<close>; a percentage is
  a host Number of type \<open>'p\<close>, whose \<open>0\<close> is the literal. \<open>None\<close> marks a rendering that
  evaluated a division by zero.
\<close>

definition percentOf ::
  "(int \<Rightarrow> int \<Rightarrow> 'q) \<Rightarrow> ('q \<Rightarrow> 'p) \<Rightarrow> int \<Rightarrow> int \<Rightarrow> 'p::zero option" where
  "percentOf hostQuotient hostRoundPercent votes totalVotes =
     (if totalVotes = 0 then Some 0
      else map_option hostRoundPercent (checked_div hostQuotient votes totalVotes))"

datatype 'p detail_view =
    ProposalNotFound
  | Detail (yesPercent: 'p) (noPercent: 'p) (totalVotes: int)

definition ProposalDetail ::
  "(int \<Rightarrow> int \<Rightarrow> 'q) \<Rightarrow> ('q \<Rightarrow> 'p) \<Rightarrow> store_state \<Rightarrow> ('p::zero) detail_view option" where
  "ProposalDetail hostQuotient hostRoundPercent st =
     (case find (\<lambda>p. Some (proposal_id p) = activeProposalId st) (proposals st) of
        None \<Rightarrow> Some ProposalNotFound
      | Some p \<Rightarrow>
          (let total = jsAdd (votesYes p) (votesNo p)
           in case (percentOf hostQuotient hostRoundPercent (votesYes p) total,
                    percentOf hostQuotient hostRoundPercent (votesNo p) total) of
                (Some y, Some n) \<Rightarrow> Some (Detail y n total)
              | _ \<Rightarrow> None))"

section \<open>One mounted ProposalForm as a transition system\<close>

text \<open>
  \<open>handleSubmit\<close> runs up to its \<open>await fetch(...)\<close> inside the submit event; the rest
  runs when the request has settled. A mounted form is its state together with the
  continuations of the requests still outstanding. The browser dispatches no submit
  event while the submit button is disabled, and the setter calls of one segment are
  applied before the next event is handled.
\<close>

definition beforeAwait :: "event list \<Rightarrow> event list" where
  "beforeAwait tr =
     takeWhile (\<lambda>e. fetched e = None) tr @ take 1 (dropWhile (\<lambda>e. fetched e = None) tr)"

definition afterAwait :: "event list \<Rightarrow> event list" where
  "afterAwait tr = drop 1 (dropWhile (\<lambda>e. fetched e = None) tr)"

record form =
  ui :: ui_state
  outstanding :: "event list list"

inductive form_step :: "form \<Rightarrow> form \<Rightarrow> bool" where
  submit:
    "\<not> submitDisabled walletAddress (ui f) \<Longrightarrow>
     tr = handleSubmit walletAddress title description now outcome \<Longrightarrow>
     form_step f
       \<lparr>ui = run (beforeAwait tr) (ui f),
        outstanding = outstanding f @ (if fetches tr = [] then [] else [afterAwait tr])\<rparr>"
| settle:
    "outstanding f = before @ k # after \<Longrightarrow>
     form_step f \<lparr>ui = run k (ui f), outstanding = before @ after\<rparr>"

inductive reachable :: "form \<Rightarrow> bool" where
  mounted: "reachable \<lparr>ui = initial_ui, outstanding = []\<rparr>"
| step: "reachable f \<Longrightarrow> form_step f f' \<Longrightarrow> reachable f'"

section \<open>Sample inputs\<close>

abbreviation sampleWallet :: jsval where
  "sampleWallet \<equiv> JStr (lit ''W23TX7Z9'')"

abbreviation sampleTitle :: jsstring where
  "sampleTitle \<equiv> lit ''Fund the lab''"

abbreviation sampleDescription :: jsstring where
  "sampleDescription \<equiv> lit ''Buy twenty new microscopes''"

abbreviation sampleProposal :: "int \<Rightarrow> int \<Rightarrow> int \<Rightarrow> proposal" where
  "sampleProposal i y n \<equiv>
     \<lparr>proposal_id = i, proposal_title = lit ''Extend Library Hours'',
      proposal_description = lit ''Keep the library open during exam weeks.'',
      creator = lit ''STU...DENT'', status = lit ''Active'', deadline = 1700000000000,
      votesYes = y, votesNo = n, quorum = 2000, category = lit ''Policy'', comments = 89\<rparr>"

abbreviation sampleStore :: "bool \<Rightarrow> proposal list \<Rightarrow> int option \<Rightarrow> store_state" where
  "sampleStore conn ps active \<equiv>
     \<lparr>currentPage = lit ''proposal'',
      user = \<lparr>address = JStr (lit ''W23T...X7Z9''), isConnected = conn, balance = 0,
              tokenBalance = 5000, delegatedPower = 0, transactions = []\<rparr>,
      proposals = ps, activeProposalId = active,
      network = \<lparr>blockHeight = 29482100, tps = 4200, net_status = lit ''Online''\<rparr>,
      notifications = [], isLoading = False\<rparr>"

section \<open>Properties\<close>

lemma run_append: "run (xs @ ys) s = run ys (run xs s)"
  by (simp add: run_def)

lemma fetches_append: "fetches (xs @ ys) = fetches xs @ fetches ys"
  by (simp add: fetches_def List.map_filter_def)

lemma run_Cons: "run (e # es) s = run es (apply_event e s)"
  by (simp add: run_def)

lemma run_Nil: "run [] s = s"
  by (simp add: run_def)

lemma fetches_Cons:
  "fetches (e # es) = (case fetched e of None \<Rightarrow> fetches es | Some r \<Rightarrow> r # fetches es)"
  by (simp add: fetches_def List.map_filter_def split: option.splits)

lemma fetches_Nil: "fetches [] = []"
  by (simp add: fetches_def List.map_filter_def)

text \<open>The refreshing helpers change none of the state variables of \<open>ui_state\<close>, and each
  issues its one GET request.\<close>

lemma run_fetchProposals: "run (fetchProposals oc) s = s"
  by (simp add: fetchProposals_def try_catch_finally_def run_def Let_def
      split: outcome.splits option.splits sum.splits)

lemma run_fetchProposalDetails: "run (fetchProposalDetails p oc) s = s"
  by (simp add: fetchProposalDetails_def try_catch_finally_def run_def Let_def
      split: outcome.splits option.splits sum.splits)

lemma run_fetchAttendanceStatus: "run (fetchAttendanceStatus w oc) s = s"
  by (simp add: fetchAttendanceStatus_def try_catch_finally_def run_def Let_def
      split: outcome.splits option.splits sum.splits)

lemma fetches_fetchProposals: "fetches (fetchProposals oc) = [GetProposals]"
  by (simp add: fetchProposals_def try_catch_finally_def fetches_def List.map_filter_def Let_def
      split: outcome.splits option.splits sum.splits)

lemma fetches_fetchProposalDetails: "fetches (fetchProposalDetails p oc) = [GetProposal p]"
  by (simp add: fetchProposalDetails_def try_catch_finally_def fetches_def List.map_filter_def
      Let_def split: outcome.splits option.splits sum.splits)

lemma fetches_fetchAttendanceStatus: "fetches (fetchAttendanceStatus w oc) = [GetAttendance w]"
  by (simp add: fetchAttendanceStatus_def try_catch_finally_def fetches_def
      List.map_filter_def Let_def split: outcome.splits option.splits sum.splits)

lemma validateForm_ok: "snd (validateForm ttl descr) \<Longrightarrow> validateForm ttl descr = ([], True)"
  by (auto simp: validateForm_def split: if_splits)

lemma validateForm_bad:
  "\<not> snd (validateForm ttl descr) \<Longrightarrow>
     \<exists>t. validateForm ttl descr = ([SetMessage (errorMessage (JStr t))], False)"
  by (auto simp: validateForm_def split: if_splits)

text \<open>Number-to-string conversion on two sample values.\<close>

lemma toString_positive: "toString 1700000000000 = lit ''1700000000000''"
  by (simp add: toString_def digits.simps digitChar_def lit_def)

lemma toString_negative: "toString (- 42) = lit ''-42''"
  by (simp add: toString_def digits.simps digitChar_def lit_def)

subsection \<open>Guards of the mutating handlers\<close>

text \<open>
  C1. When the \<open>walletAddress\<close> prop is absent (\<open>null\<close>, \<open>undefined\<close> or the empty
  string, that is, falsy), \<open>handleSubmit\<close>, \<open>handleVote\<close> and \<open>handleMarkAttendance\<close> each
  leave the message "Please connect your wallet first" of type error and issue no
  \<open>fetch\<close>, whatever the other inputs are.
\<close>

theorem absent_wallet_blocks_mutations:
  assumes "\<not> truthy walletAddress"
  shows "message (run (handleSubmit walletAddress ttl descr now oc) s) =
           Some \<lparr>mtype = Error, mtext = JStr (lit ''Please connect your wallet first'')\<rparr>
       \<and> fetches (handleSubmit walletAddress ttl descr now oc) = []
       \<and> message (run (handleVote walletAddress proposalId vote now oc oc2 oc3) s) =
           Some \<lparr>mtype = Error, mtext = JStr (lit ''Please connect your wallet first'')\<rparr>
       \<and> fetches (handleVote walletAddress proposalId vote now oc oc2 oc3) = []
       \<and> message (run (handleMarkAttendance walletAddress isoNow now oc oc2) s) =
           Some \<lparr>mtype = Error, mtext = JStr (lit ''Please connect your wallet first'')\<rparr>
       \<and> fetches (handleMarkAttendance walletAddress isoNow now oc oc2) = []"
  using assms
  by (simp add: handleSubmit_def handleVote_def handleMarkAttendance_def run_def fetches_def
      List.map_filter_def connectWalletFirst_def errorMessage_def)

theorem absent_wallet_blocks_mutations_witness:
  "\<not> truthy JNull
   \<and> message (run (handleSubmit JNull (lit ''Fund the lab'')
                  (lit ''Buy twenty new microscopes'') 0 Rejected) initial_ui) =
       Some \<lparr>mtype = Error, mtext = JStr (lit ''Please connect your wallet first'')\<rparr>
   \<and> fetches (handleSubmit JNull (lit ''Fund the lab'')
                (lit ''Buy twenty new microscopes'') 0 Rejected) = []
   \<and> fetches (handleVote JNull (JNum 1042) (lit ''yes'') 0 Rejected Rejected Rejected) = []
   \<and> fetches (handleMarkAttendance JNull (lit ''2026-01-01T00:00:00.000Z'') 0
                Rejected Rejected) = []"
  using absent_wallet_blocks_mutations [of JNull "lit ''Fund the lab''"
      "lit ''Buy twenty new microscopes''" 0 Rejected initial_ui "JNum 1042" "lit ''yes''"
      Rejected Rejected "lit ''2026-01-01T00:00:00.000Z''"]
  by simp

text \<open>
  C2. When the trimmed title has fewer than 5 code units, \<open>validateForm\<close> returns false
  and \<open>handleSubmit\<close> issues no \<open>fetch\<close> and leaves an error message; with a wallet
  connected that message is the title validation message ("Please enter a proposal
  title" for a blank title, "Title must be at least 5 characters" otherwise).
\<close>

theorem short_title_rejected:
  assumes "length (trim ttl) < 5"
  shows "\<not> snd (validateForm ttl descr)
       \<and> fetches (handleSubmit walletAddress ttl descr now oc) = []
       \<and> (\<exists>t. message (run (handleSubmit walletAddress ttl descr now oc) s) =
                 Some \<lparr>mtype = Error, mtext = JStr t\<rparr>)
       \<and> (truthy walletAddress \<longrightarrow>
            message (run (handleSubmit walletAddress ttl descr now oc) s) =
              Some \<lparr>mtype = Error, mtext = JStr
                (if trim ttl = [] then lit ''Please enter a proposal title''
                 else lit ''Title must be at least 5 characters'')\<rparr>)"
  using assms
  by (simp add: handleSubmit_def validateForm_def run_def fetches_def
      List.map_filter_def connectWalletFirst_def errorMessage_def)

theorem short_title_rejected_witness:
  "length (trim (lit ''  abc   '')) < 5 \<and> truthy (JStr (lit ''W23TX7Z9''))
   \<and> fetches (handleSubmit (JStr (lit ''W23TX7Z9'')) (lit ''  abc   '')
                (lit ''Buy twenty new microscopes'') 0 Rejected) = []
   \<and> message (run (handleSubmit (JStr (lit ''W23TX7Z9'')) (lit ''  abc   '')
                  (lit ''Buy twenty new microscopes'') 0 Rejected) initial_ui) =
       Some \<lparr>mtype = Error, mtext = JStr (lit ''Title must be at least 5 characters'')\<rparr>"
  using short_title_rejected [of "lit ''  abc   ''" "lit ''Buy twenty new microscopes''"
      "JStr (lit ''W23TX7Z9'')" 0 Rejected initial_ui]
  by (simp add: trim_def lit_def isWhiteSpace_def)

text \<open>
  C3. With a valid title (at least 5 code units after trimming), when the trimmed
  description has fewer than 20 code units, \<open>validateForm\<close> returns false and
  \<open>handleSubmit\<close> issues no \<open>fetch\<close> and leaves an error message; with a wallet connected
  that message is the description validation message.
\<close>

theorem short_description_rejected:
  assumes "5 \<le> length (trim ttl)" and "length (trim descr) < 20"
  shows "\<not> snd (validateForm ttl descr)
       \<and> fetches (handleSubmit walletAddress ttl descr now oc) = []
       \<and> (\<exists>t. message (run (handleSubmit walletAddress ttl descr now oc) s) =
                 Some \<lparr>mtype = Error, mtext = JStr t\<rparr>)
       \<and> (truthy walletAddress \<longrightarrow>
            message (run (handleSubmit walletAddress ttl descr now oc) s) =
              Some \<lparr>mtype = Error, mtext = JStr
                (if trim descr = [] then lit ''Please enter a proposal description''
                 else lit ''Description must be at least 20 characters'')\<rparr>)"
  using assms
  by (auto simp add: handleSubmit_def validateForm_def run_def fetches_def
      List.map_filter_def connectWalletFirst_def errorMessage_def)

theorem short_description_rejected_witness:
  "5 \<le> length (trim (lit ''Fund the lab'')) \<and> length (trim (lit '' too short '')) < 20
   \<and> truthy (JStr (lit ''W23TX7Z9''))
   \<and> fetches (handleSubmit (JStr (lit ''W23TX7Z9'')) (lit ''Fund the lab'')
                (lit '' too short '') 0 Rejected) = []
   \<and> message (run (handleSubmit (JStr (lit ''W23TX7Z9'')) (lit ''Fund the lab'')
                  (lit '' too short '') 0 Rejected) initial_ui) =
       Some \<lparr>mtype = Error, mtext = JStr (lit ''Description must be at least 20 characters'')\<rparr>"
  using short_description_rejected [of "lit ''Fund the lab''" "lit '' too short ''"
      "JStr (lit ''W23TX7Z9'')" 0 Rejected initial_ui]
  by (simp add: trim_def lit_def isWhiteSpace_def)

subsection \<open>Responses\<close>

text \<open>
  C4 fails as stated: every handler awaits \<open>response.json()\<close> before it looks at
  \<open>response.ok\<close>, so a 2xx response whose body is not JSON (an empty 204, say) ends in
  the \<open>catch\<close> block. Here \<open>handleSubmit\<close>, with a wallet and a valid form, receives such
  a response: the message left is the network error and no transaction hash is set.
\<close>

theorem ok_response_unparsed_counterexample:
  "ok \<lparr>ok = True, body = None\<rparr>
   \<and> truthy (JStr (lit ''W23TX7Z9''))
   \<and> snd (validateForm (lit ''Fund the lab'') (lit ''Buy twenty new microscopes''))
   \<and> message (run (handleSubmit (JStr (lit ''W23TX7Z9'')) (lit ''Fund the lab'')
                  (lit ''Buy twenty new microscopes'') 0
                  (Responded \<lparr>ok = True, body = None\<rparr>)) initial_ui) =
       Some \<lparr>mtype = Error,
             mtext = JStr (lit ''Network error. Please check your connection and try again.'')\<rparr>
   \<and> transactionHash (run (handleSubmit (JStr (lit ''W23TX7Z9'')) (lit ''Fund the lab'')
                  (lit ''Buy twenty new microscopes'') 0
                  (Responded \<lparr>ok = True, body = None\<rparr>)) initial_ui) = JNull"
  by (simp add: handleSubmit_def handleSubmit_try_def validateForm_def try_catch_finally_def
      run_def initial_ui_def networkError_def errorMessage_def trim_def lit_def isWhiteSpace_def)

text \<open>
  C4, amended. For every 2xx response whose body parses as JSON and allows property
  reads (it is not \<open>null\<close>), with \<open>th\<close> and \<open>tx\<close> its \<open>transactionHash\<close> and \<open>txId\<close>
  properties (\<open>undefined\<close> when missing): \<open>handleSubmit\<close> (wallet connected, form valid),
  \<open>handleVote\<close> and \<open>handleMarkAttendance\<close> (wallet connected) leave their success
  message, and the transaction hash is \<open>th\<close> if it is truthy, else \<open>tx\<close> if it is
  truthy, else \<open>'TX-'\<close> followed by the decimal \<open>Date.now()\<close>. The refreshing requests
  of the success branch do not change either.
\<close>

theorem ok_response_shows_hash:
  assumes "truthy walletAddress" and "ok response" and "body response = Some data"
    and "get_prop data (lit ''transactionHash'') = Inr th"
    and "get_prop data (lit ''txId'') = Inr tx"
  shows "(snd (validateForm ttl descr) \<longrightarrow>
           message (run (handleSubmit walletAddress ttl descr now (Responded response)) s) =
             Some \<lparr>mtype = Success, mtext = JStr (lit ''Proposal created successfully!'')\<rparr>
         \<and> transactionHash (run (handleSubmit walletAddress ttl descr now (Responded response)) s) =
             (if truthy th then th else if truthy tx then tx
              else JStr (lit ''TX-'' @ toString now)))
       \<and> message (run (handleVote walletAddress proposalId vote now (Responded response) oc2 oc3) s) =
           Some \<lparr>mtype = Success, mtext = JStr (lit ''Vote '' @ [0x22] @ vote @ [0x22] @
                                                 lit '' submitted successfully!'')\<rparr>
       \<and> transactionHash (run (handleVote walletAddress proposalId vote now (Responded response) oc2 oc3) s) =
           (if truthy th then th else if truthy tx then tx
            else JStr (lit ''TX-'' @ toString now))
       \<and> message (run (handleMarkAttendance walletAddress isoNow now (Responded response) oc2) s) =
           Some \<lparr>mtype = Success, mtext = JStr (lit ''Attendance marked successfully!'')\<rparr>
       \<and> transactionHash (run (handleMarkAttendance walletAddress isoNow now (Responded response) oc2) s) =
           (if truthy th then th else if truthy tx then tx
            else JStr (lit ''TX-'' @ toString now))"
proof -
  have h: "transactionHashOf data now =
             Inr (if truthy th then th else if truthy tx then tx
                  else JStr (lit ''TX-'' @ toString now))"
    using assms(4,5) by (simp add: transactionHashOf_def)
  have submit: "snd (validateForm ttl descr) \<Longrightarrow> fst (validateForm ttl descr) = []"
    by (auto simp: validateForm_def split: if_splits)
  show ?thesis
    using assms(1-3) h submit
    by (cases "validateForm ttl descr")
       (simp add: handleSubmit_def handleSubmit_try_def handleVote_def handleVote_try_def
        handleMarkAttendance_def handleMarkAttendance_try_def try_catch_finally_def
        run_append run_Cons run_Nil run_fetchProposals run_fetchProposalDetails
        run_fetchAttendanceStatus successMessage_def Let_def)
qed

theorem ok_response_shows_hash_witness:
  "truthy sampleWallet
   \<and> ok \<lparr>ok = True, body = Some (JObj [(lit ''txId'', JStr (lit ''QX7A''))])\<rparr>
   \<and> get_prop (JObj [(lit ''txId'', JStr (lit ''QX7A''))]) (lit ''transactionHash'') = Inr JUndefined
   \<and> get_prop (JObj [(lit ''txId'', JStr (lit ''QX7A''))]) (lit ''txId'') = Inr (JStr (lit ''QX7A''))
   \<and> snd (validateForm sampleTitle sampleDescription)
   \<and> message (run (handleSubmit sampleWallet sampleTitle sampleDescription 1700000000000
        (Responded \<lparr>ok = True, body = Some (JObj [(lit ''txId'', JStr (lit ''QX7A''))])\<rparr>))
        initial_ui) =
       Some \<lparr>mtype = Success, mtext = JStr (lit ''Proposal created successfully!'')\<rparr>
   \<and> transactionHash (run (handleSubmit sampleWallet sampleTitle sampleDescription 1700000000000
        (Responded \<lparr>ok = True, body = Some (JObj [(lit ''txId'', JStr (lit ''QX7A''))])\<rparr>))
        initial_ui) = JStr (lit ''QX7A'')
   \<and> transactionHash (run (handleVote sampleWallet (JNum 1042) (lit ''yes'') 1700000000000
        (Responded \<lparr>ok = True, body = Some (JObj [(lit ''txId'', JStr (lit ''QX7A''))])\<rparr>)
        Rejected Rejected) initial_ui) = JStr (lit ''QX7A'')
   \<and> transactionHash (run (handleMarkAttendance sampleWallet (lit ''2026-01-01T00:00:00.000Z'')
        1700000000000
        (Responded \<lparr>ok = True, body = Some (JObj [(lit ''txId'', JStr (lit ''QX7A''))])\<rparr>)
        Rejected) initial_ui) = JStr (lit ''QX7A'')"
  using ok_response_shows_hash [of sampleWallet
      "\<lparr>ok = True, body = Some (JObj [(lit ''txId'', JStr (lit ''QX7A''))])\<rparr>"
      "JObj [(lit ''txId'', JStr (lit ''QX7A''))]" JUndefined "JStr (lit ''QX7A'')"
      sampleTitle sampleDescription 1700000000000 initial_ui "JNum 1042" "lit ''yes''"
      Rejected Rejected "lit ''2026-01-01T00:00:00.000Z''"]
  by (simp add: validateForm_def trim_def lit_def isWhiteSpace_def)

text \<open>
  C5. For every non-2xx response, \<open>handleSubmit\<close> (wallet connected, form valid),
  \<open>handleVote\<close> (wallet connected) and \<open>handleVerify\<close> (certificate id not blank) leave
  a message of type error. Its text is the body's \<open>error\<close> property when that is
  present (truthy); otherwise the handler's own fallback string; and the network
  error string when the body is not JSON or is \<open>null\<close>.
\<close>

theorem failing_response_message:
  assumes "\<not> ok response"
  shows "(truthy walletAddress \<and> snd (validateForm ttl descr) \<longrightarrow>
           message (run (handleSubmit walletAddress ttl descr now (Responded response)) s) =
             Some \<lparr>mtype = Error, mtext =
               (case body response of
                  None \<Rightarrow> JStr (lit ''Network error. Please check your connection and try again.'')
                | Some data \<Rightarrow>
                    (case get_prop data (lit ''error'') of
                       Inl x \<Rightarrow> JStr (lit ''Network error. Please check your connection and try again.'')
                     | Inr err \<Rightarrow>
                         if truthy err then err
                         else JStr (lit ''Failed to create proposal. Please try again.'')))\<rparr>)
       \<and> (truthy walletAddress \<longrightarrow>
           message (run (handleVote walletAddress proposalId vote now (Responded response) oc2 oc3) s) =
             Some \<lparr>mtype = Error, mtext =
               (case body response of
                  None \<Rightarrow> JStr (lit ''Network error. Please check your connection and try again.'')
                | Some data \<Rightarrow>
                    (case get_prop data (lit ''error'') of
                       Inl x \<Rightarrow> JStr (lit ''Network error. Please check your connection and try again.'')
                     | Inr err \<Rightarrow>
                         if truthy err then err
                         else JStr (lit ''Failed to submit vote. Please try again.'')))\<rparr>)
       \<and> (trim certificateId \<noteq> [] \<longrightarrow>
           message (run (handleVerify certificateId (Responded response)) s) =
             Some \<lparr>mtype = Error, mtext =
               (case body response of
                  None \<Rightarrow> JStr (lit ''Network error. Please check your connection and try again.'')
                | Some data \<Rightarrow>
                    (case get_prop data (lit ''error'') of
                       Inl x \<Rightarrow> JStr (lit ''Network error. Please check your connection and try again.'')
                     | Inr err \<Rightarrow>
                         if truthy err then err
                         else JStr (lit ''Failed to verify certificate. Please try again.'')))\<rparr>)"
proof -
  have a: "truthy walletAddress \<and> snd (validateForm ttl descr) \<longrightarrow>
           message (run (handleSubmit walletAddress ttl descr now (Responded response)) s) =
             Some \<lparr>mtype = Error, mtext =
               (case body response of
                  None \<Rightarrow> JStr (lit ''Network error. Please check your connection and try again.'')
                | Some data \<Rightarrow>
                    (case get_prop data (lit ''error'') of
                       Inl x \<Rightarrow> JStr (lit ''Network error. Please check your connection and try again.'')
                     | Inr err \<Rightarrow>
                         if truthy err then err
                         else JStr (lit ''Failed to create proposal. Please try again.'')))\<rparr>"
    using assms
    by (simp add: handleSubmit_def handleSubmit_try_def validateForm_ok try_catch_finally_def
        run_append run_Cons run_Nil networkError_def errorMessage_def js_or_def Let_def
        split: option.splits sum.splits)
  have b: "truthy walletAddress \<longrightarrow>
           message (run (handleVote walletAddress proposalId vote now (Responded response) oc2 oc3) s) =
             Some \<lparr>mtype = Error, mtext =
               (case body response of
                  None \<Rightarrow> JStr (lit ''Network error. Please check your connection and try again.'')
                | Some data \<Rightarrow>
                    (case get_prop data (lit ''error'') of
                       Inl x \<Rightarrow> JStr (lit ''Network error. Please check your connection and try again.'')
                     | Inr err \<Rightarrow>
                         if truthy err then err
                         else JStr (lit ''Failed to submit vote. Please try again.'')))\<rparr>"
    using assms
    by (simp add: handleVote_def handleVote_try_def try_catch_finally_def
        run_append run_Cons run_Nil networkError_def errorMessage_def js_or_def Let_def
        split: option.splits sum.splits)
  have c: "trim certificateId \<noteq> [] \<longrightarrow>
           message (run (handleVerify certificateId (Responded response)) s) =
             Some \<lparr>mtype = Error, mtext =
               (case body response of
                  None \<Rightarrow> JStr (lit ''Network error. Please check your connection and try again.'')
                | Some data \<Rightarrow>
                    (case get_prop data (lit ''error'') of
                       Inl x \<Rightarrow> JStr (lit ''Network error. Please check your connection and try again.'')
                     | Inr err \<Rightarrow>
                         if truthy err then err
                         else JStr (lit ''Failed to verify certificate. Please try again.'')))\<rparr>"
    using assms
    by (simp add: handleVerify_def handleVerify_try_def try_catch_finally_def
        run_append run_Cons run_Nil networkError_def errorMessage_def js_or_def Let_def
        split: option.splits sum.splits)
  from a b c show ?thesis by blast
qed

theorem failing_response_message_witness:
  "\<not> ok \<lparr>ok = False, body = Some (JObj [(lit ''error'', JStr (lit ''Title already used''))])\<rparr>
   \<and> truthy (JStr (lit ''W23TX7Z9''))
   \<and> snd (validateForm (lit ''Fund the lab'') (lit ''Buy twenty new microscopes''))
   \<and> trim (lit ''CERT-7'') \<noteq> []
   \<and> message (run (handleSubmit (JStr (lit ''W23TX7Z9'')) (lit ''Fund the lab'')
        (lit ''Buy twenty new microscopes'') 0
        (Responded \<lparr>ok = False, body = Some (JObj [(lit ''error'', JStr (lit ''Title already used''))])\<rparr>))
        initial_ui) = Some \<lparr>mtype = Error, mtext = JStr (lit ''Title already used'')\<rparr>
   \<and> message (run (handleVote (JStr (lit ''W23TX7Z9'')) (JNum 1042) (lit ''yes'') 0
        (Responded \<lparr>ok = False, body = Some (JObj [(lit ''error'', JStr (lit ''Title already used''))])\<rparr>)
        Rejected Rejected) initial_ui) = Some \<lparr>mtype = Error, mtext = JStr (lit ''Title already used'')\<rparr>
   \<and> message (run (handleVerify (lit ''CERT-7'')
        (Responded \<lparr>ok = False, body = Some (JObj [(lit ''error'', JStr (lit ''Title already used''))])\<rparr>))
        initial_ui) = Some \<lparr>mtype = Error, mtext = JStr (lit ''Title already used'')\<rparr>"
  using failing_response_message [of
      "\<lparr>ok = False, body = Some (JObj [(lit ''error'', JStr (lit ''Title already used''))])\<rparr>"
      "JStr (lit ''W23TX7Z9'')" "lit ''Fund the lab''" "lit ''Buy twenty new microscopes''" 0
      initial_ui "JNum 1042" "lit ''yes''" Rejected Rejected "lit ''CERT-7''"]
  by (simp add: validateForm_def trim_def lit_def isWhiteSpace_def)

subsection \<open>Exceptions and the busy flag\<close>

text \<open>What each \<open>try\<close> block has done when it throws, and the POST requests it issues.\<close>

lemma handleSubmit_try_throws:
  "snd (handleSubmit_try w ttl descr now oc) = Some e \<Longrightarrow>
     fetches (fst (handleSubmit_try w ttl descr now oc)) = [PostProposals (trim ttl) (trim descr) w]
   \<and> message (run (fst (handleSubmit_try w ttl descr now oc) @ [ConsoleError l (Some e), SetMessage m, SetIsSubmitting False]) s) = m"
  by (auto simp add: handleSubmit_try_def Let_def fetches_Cons fetches_Nil fetches_append run_append run_Cons run_Nil
      split: outcome.splits option.splits sum.splits if_splits)

lemma handleSubmit_try_posts:
  "filter isPost (fetches (fst (handleSubmit_try w ttl descr now oc))) = [PostProposals (trim ttl) (trim descr) w]"
  by (auto simp add: handleSubmit_try_def Let_def fetches_Cons fetches_Nil fetches_append
      split: outcome.splits option.splits sum.splits if_splits)

lemma handleVote_try_throws:
  "snd (handleVote_try w p v now oc oc2 oc3) = Some e \<Longrightarrow>
     fetches (fst (handleVote_try w p v now oc oc2 oc3)) = [PostVote p v w]
   \<and> message (run (fst (handleVote_try w p v now oc oc2 oc3) @ [ConsoleError l (Some e), SetMessage m, SetIsVoting False]) s) = m"
  by (auto simp add: handleVote_try_def Let_def fetches_Cons fetches_Nil fetches_append run_append run_Cons run_Nil
      split: outcome.splits option.splits sum.splits if_splits)

lemma handleVote_try_posts:
  "filter isPost (fetches (fst (handleVote_try w p v now oc oc2 oc3))) = [PostVote p v w]"
  by (auto simp add: handleVote_try_def Let_def fetches_Cons fetches_Nil fetches_append
      fetches_fetchProposals fetches_fetchProposalDetails
      split: outcome.splits option.splits sum.splits if_splits)

lemma handleMarkAttendance_try_throws:
  "snd (handleMarkAttendance_try w isoNow now oc oc2) = Some e \<Longrightarrow>
     fetches (fst (handleMarkAttendance_try w isoNow now oc oc2)) = [PostAttendance w isoNow]
   \<and> message (run (fst (handleMarkAttendance_try w isoNow now oc oc2) @ [ConsoleError l (Some e), SetMessage m, SetIsMarking False]) s) = m"
  by (auto simp add: handleMarkAttendance_try_def Let_def fetches_Cons fetches_Nil fetches_append run_append run_Cons run_Nil
      split: outcome.splits option.splits sum.splits if_splits)

lemma handleMarkAttendance_try_posts:
  "filter isPost (fetches (fst (handleMarkAttendance_try w isoNow now oc oc2))) = [PostAttendance w isoNow]"
  by (auto simp add: handleMarkAttendance_try_def Let_def fetches_Cons fetches_Nil fetches_append
      fetches_fetchAttendanceStatus
      split: outcome.splits option.splits sum.splits if_splits)

text \<open>
  C7 fails as stated: not every exception thrown during a network call of a handler
  ends in an error message. Here the POST of \<open>handleVote\<close> succeeds and both
  refreshing GET requests reject. \<open>fetchProposalDetails\<close> and \<open>fetchProposals\<close> catch
  the exception themselves and only log it; the trace has no error message after
  them, and the message left is the success message.
\<close>

theorem refresh_exception_counterexample:
  "handleVote sampleWallet (JNum 1042) (lit ''yes'') 0
       (Responded \<lparr>ok = True, body = Some (JObj [])\<rparr>) Rejected Rejected =
     [SetMessage None, SetTransactionHash JNull, SetIsVoting True,
      Fetch (PostVote (JNum 1042) (lit ''yes'') sampleWallet),
      SetMessage (Some \<lparr>mtype = Success, mtext = JStr (lit ''Vote '' @ [0x22] @ lit ''yes'' @
                            [0x22] @ lit '' submitted successfully!'')\<rparr>),
      SetTransactionHash (JStr (lit ''TX-'' @ toString 0)),
      Fetch (GetProposal (JNum 1042)),
      ConsoleError (lit ''Error fetching proposal details:'') (Some FetchRejected),
      SetIsLoading True,
      Fetch GetProposals,
      ConsoleError (lit ''Error fetching proposals:'') (Some FetchRejected),
      SetIsLoading False,
      SetIsVoting False]
   \<and> message (run (handleVote sampleWallet (JNum 1042) (lit ''yes'') 0
       (Responded \<lparr>ok = True, body = Some (JObj [])\<rparr>) Rejected Rejected) initial_ui) =
     Some \<lparr>mtype = Success, mtext = JStr (lit ''Vote '' @ [0x22] @ lit ''yes'' @ [0x22] @
                                           lit '' submitted successfully!'')\<rparr>"
  by (simp add: handleVote_def handleVote_try_def transactionHashOf_def fetchProposalDetails_def
      fetchProposals_def try_catch_finally_def run_def successMessage_def lit_def)

text \<open>
  C7, amended. When an exception \<open>e\<close> reaches the \<open>catch\<close> block of \<open>handleSubmit\<close>,
  \<open>handleVote\<close> or \<open>handleMarkAttendance\<close> (the handler's own \<open>fetch\<close> rejects, its
  \<open>response.json()\<close> rejects, or a property of a \<open>null\<close> body is read), the handler logs
  \<open>e\<close> with \<open>console.error\<close>, leaves the network error message, and has issued its POST
  request and nothing else. In every run each handler issues at most one POST request:
  nothing is retried. The refreshing GET requests that \<open>handleVote\<close> and
  \<open>handleMarkAttendance\<close> issue after a success do not decide whether the handler's
  \<open>try\<close> block throws, and the helpers that issue them leave the message as it is,
  whatever their outcome.
\<close>

theorem thrown_exception_surfaced:
  "(truthy walletAddress \<and> snd (validateForm ttl descr)
      \<and> snd (handleSubmit_try walletAddress ttl descr now oc) = Some e \<longrightarrow>
        ConsoleError (lit ''Error creating proposal:'') (Some e)
          \<in> set (handleSubmit walletAddress ttl descr now oc)
      \<and> message (run (handleSubmit walletAddress ttl descr now oc) s) =
          Some \<lparr>mtype = Error, mtext = JStr
            (lit ''Network error. Please check your connection and try again.'')\<rparr>
      \<and> fetches (handleSubmit walletAddress ttl descr now oc) =
          [PostProposals (trim ttl) (trim descr) walletAddress])
   \<and> length (filter isPost (fetches (handleSubmit walletAddress ttl descr now oc))) \<le> 1
   \<and> (truthy walletAddress
      \<and> snd (handleVote_try walletAddress proposalId vote now oc oc2 oc3) = Some e \<longrightarrow>
        ConsoleError (lit ''Error voting:'') (Some e)
          \<in> set (handleVote walletAddress proposalId vote now oc oc2 oc3)
      \<and> message (run (handleVote walletAddress proposalId vote now oc oc2 oc3) s) =
          Some \<lparr>mtype = Error, mtext = JStr
            (lit ''Network error. Please check your connection and try again.'')\<rparr>
      \<and> fetches (handleVote walletAddress proposalId vote now oc oc2 oc3) =
          [PostVote proposalId vote walletAddress])
   \<and> length (filter isPost (fetches (handleVote walletAddress proposalId vote now oc oc2 oc3))) \<le> 1
   \<and> (truthy walletAddress
      \<and> snd (handleMarkAttendance_try walletAddress isoNow now oc oc2) = Some e \<longrightarrow>
        ConsoleError (lit ''Error marking attendance:'') (Some e)
          \<in> set (handleMarkAttendance walletAddress isoNow now oc oc2)
      \<and> message (run (handleMarkAttendance walletAddress isoNow now oc oc2) s) =
          Some \<lparr>mtype = Error, mtext = JStr
            (lit ''Network error. Please check your connection and try again.'')\<rparr>
      \<and> fetches (handleMarkAttendance walletAddress isoNow now oc oc2) =
          [PostAttendance walletAddress isoNow])
   \<and> length (filter isPost (fetches (handleMarkAttendance walletAddress isoNow now oc oc2))) \<le> 1
   \<and> snd (handleVote_try walletAddress proposalId vote now oc oc2 oc3) =
       snd (handleVote_try walletAddress proposalId vote now oc oc2' oc3')
   \<and> snd (handleMarkAttendance_try walletAddress isoNow now oc oc2) =
       snd (handleMarkAttendance_try walletAddress isoNow now oc oc2')
   \<and> message (run (fetchProposalDetails proposalId oc2) s) = message s
   \<and> message (run (fetchProposals oc3) s) = message s
   \<and> message (run (fetchAttendanceStatus walletAddress oc2) s) = message s"
proof -
  have a: "length (filter isPost (fetches (handleSubmit walletAddress ttl descr now oc))) \<le> 1"
  proof (cases "snd (validateForm ttl descr)")
    case True
    then show ?thesis
      by (simp add: handleSubmit_def validateForm_ok try_catch_finally_def fetches_Cons
          fetches_Nil fetches_append handleSubmit_try_posts split: option.splits)
  next
    case False
    then obtain t where "validateForm ttl descr = ([SetMessage (errorMessage (JStr t))], False)"
      using validateForm_bad by blast
    then show ?thesis
      by (simp add: handleSubmit_def fetches_Cons fetches_Nil fetches_append)
  qed
  have b: "length (filter isPost (fetches (handleVote walletAddress proposalId vote now oc oc2 oc3))) \<le> 1"
    by (simp add: handleVote_def try_catch_finally_def fetches_Cons
        fetches_Nil fetches_append handleVote_try_posts split: option.splits)
  have c: "length (filter isPost (fetches (handleMarkAttendance walletAddress isoNow now oc oc2))) \<le> 1"
    by (simp add: handleMarkAttendance_def try_catch_finally_def fetches_Cons
        fetches_Nil fetches_append handleMarkAttendance_try_posts split: option.splits)
  have d: "truthy walletAddress \<and> snd (validateForm ttl descr)
      \<and> snd (handleSubmit_try walletAddress ttl descr now oc) = Some e \<longrightarrow>
        ConsoleError (lit ''Error creating proposal:'') (Some e)
          \<in> set (handleSubmit walletAddress ttl descr now oc)
      \<and> message (run (handleSubmit walletAddress ttl descr now oc) s) =
          Some \<lparr>mtype = Error, mtext = JStr
            (lit ''Network error. Please check your connection and try again.'')\<rparr>
      \<and> fetches (handleSubmit walletAddress ttl descr now oc) =
          [PostProposals (trim ttl) (trim descr) walletAddress]"
    using handleSubmit_try_throws [of walletAddress ttl descr now oc e]
    by (simp add: handleSubmit_def validateForm_ok try_catch_finally_def fetches_Cons
        fetches_Nil fetches_append run_append run_Cons run_Nil networkError_def errorMessage_def)
  have e: "truthy walletAddress
      \<and> snd (handleVote_try walletAddress proposalId vote now oc oc2 oc3) = Some e \<longrightarrow>
        ConsoleError (lit ''Error voting:'') (Some e)
          \<in> set (handleVote walletAddress proposalId vote now oc oc2 oc3)
      \<and> message (run (handleVote walletAddress proposalId vote now oc oc2 oc3) s) =
          Some \<lparr>mtype = Error, mtext = JStr
            (lit ''Network error. Please check your connection and try again.'')\<rparr>
      \<and> fetches (handleVote walletAddress proposalId vote now oc oc2 oc3) =
          [PostVote proposalId vote walletAddress]"
    using handleVote_try_throws [of walletAddress proposalId vote now oc oc2 oc3 e]
    by (simp add: handleVote_def try_catch_finally_def fetches_Cons
        fetches_Nil fetches_append run_append run_Cons run_Nil networkError_def errorMessage_def)
  have f: "truthy walletAddress
      \<and> snd (handleMarkAttendance_try walletAddress isoNow now oc oc2) = Some e \<longrightarrow>
        ConsoleError (lit ''Error marking attendance:'') (Some e)
          \<in> set (handleMarkAttendance walletAddress isoNow now oc oc2)
      \<and> message (run (handleMarkAttendance walletAddress isoNow now oc oc2) s) =
          Some \<lparr>mtype = Error, mtext = JStr
            (lit ''Network error. Please check your connection and try again.'')\<rparr>
      \<and> fetches (handleMarkAttendance walletAddress isoNow now oc oc2) =
          [PostAttendance walletAddress isoNow]"
    using handleMarkAttendance_try_throws [of walletAddress isoNow now oc oc2 e]
    by (simp add: handleMarkAttendance_def try_catch_finally_def fetches_Cons
        fetches_Nil fetches_append run_append run_Cons run_Nil networkError_def errorMessage_def)
  have g: "snd (handleVote_try walletAddress proposalId vote now oc oc2 oc3) =
       snd (handleVote_try walletAddress proposalId vote now oc oc2' oc3')"
    by (simp add: handleVote_try_def Let_def split: outcome.splits option.splits sum.splits)
  have h: "snd (handleMarkAttendance_try walletAddress isoNow now oc oc2) =
       snd (handleMarkAttendance_try walletAddress isoNow now oc oc2')"
    by (simp add: handleMarkAttendance_try_def Let_def
        split: outcome.splits option.splits sum.splits)
  have i: "message (run (fetchProposalDetails proposalId oc2) s) = message s
   \<and> message (run (fetchProposals oc3) s) = message s
   \<and> message (run (fetchAttendanceStatus walletAddress oc2) s) = message s"
    by (simp add: run_fetchProposalDetails run_fetchProposals run_fetchAttendanceStatus)
  from a b c d e f g h i show ?thesis by blast
qed

theorem thrown_exception_surfaced_witness:
  "truthy sampleWallet \<and> snd (validateForm sampleTitle sampleDescription)
   \<and> snd (handleSubmit_try sampleWallet sampleTitle sampleDescription 0 Rejected) = Some FetchRejected
   \<and> snd (handleVote_try sampleWallet (JNum 1042) (lit ''yes'') 0 Rejected Rejected Rejected) = Some FetchRejected
   \<and> snd (handleMarkAttendance_try sampleWallet (lit ''2026-01-01T00:00:00.000Z'') 0 Rejected Rejected) = Some FetchRejected
   \<and> ConsoleError (lit ''Error creating proposal:'') (Some FetchRejected)
        \<in> set (handleSubmit sampleWallet sampleTitle sampleDescription 0 Rejected)
   \<and> message (run (handleSubmit sampleWallet sampleTitle sampleDescription 0 Rejected) initial_ui) =
        Some \<lparr>mtype = Error, mtext = JStr
          (lit ''Network error. Please check your connection and try again.'')\<rparr>
   \<and> fetches (handleSubmit sampleWallet sampleTitle sampleDescription 0 Rejected) =
        [PostProposals (trim sampleTitle) (trim sampleDescription) sampleWallet]
   \<and> fetches (handleVote sampleWallet (JNum 1042) (lit ''yes'') 0 Rejected Rejected Rejected) =
        [PostVote (JNum 1042) (lit ''yes'') sampleWallet]
   \<and> fetches (handleMarkAttendance sampleWallet (lit ''2026-01-01T00:00:00.000Z'') 0 Rejected Rejected) =
        [PostAttendance sampleWallet (lit ''2026-01-01T00:00:00.000Z'')]"
  using thrown_exception_surfaced [of sampleWallet sampleTitle sampleDescription 0 Rejected
      FetchRejected initial_ui "JNum 1042" "lit ''yes''" Rejected Rejected
      "lit ''2026-01-01T00:00:00.000Z''"]
  by (simp add: validateForm_def handleSubmit_try_def handleVote_try_def
      handleMarkAttendance_try_def trim_def lit_def isWhiteSpace_def)

text \<open>Where a trace has a single \<open>Fetch\<close>, it splits around it in one way only.\<close>

lemma split_at_fetch:
  assumes "fetches xs = []" and "fetches ys = []"
    and "xs @ Fetch q # ys = pre @ Fetch r # post"
  shows "pre = xs \<and> r = q \<and> post = ys"
  using assms
proof (induction xs arbitrary: pre)
  case Nil
  show ?case
  proof (cases pre)
    case Nil
    with Nil.prems show ?thesis by simp
  next
    case (Cons a pre')
    with Nil.prems have "ys = pre' @ Fetch r # post" by simp
    with Nil.prems(2) show ?thesis by (simp add: fetches_append fetches_Cons)
  qed
next
  case (Cons x xs)
  show ?case
  proof (cases pre)
    case Nil
    with Cons.prems have "x = Fetch r" by simp
    with Cons.prems(1) show ?thesis by (simp add: fetches_Cons)
  next
    case (Cons a pre')
    with Cons.prems have eq: "a = x" "xs @ Fetch q # ys = pre' @ Fetch r # post" by simp_all
    from Cons.prems(1) have "fetches xs = []"
      by (simp add: fetches_Cons split: option.splits)
    from Cons.IH [OF this Cons.prems(2) eq(2)] eq(1) Cons show ?thesis by simp
  qed
qed

text \<open>The shape of \<open>handleSubmit\<close>'s effects.\<close>

lemma handleSubmit_try_shape:
  "\<exists>more. fst (handleSubmit_try w ttl descr now oc) =
            [SetIsSubmitting True, Fetch (PostProposals (trim ttl) (trim descr) w)] @ more
         \<and> fetches more = []"
  by (auto simp add: handleSubmit_try_def Let_def fetches_Cons fetches_Nil
      split: outcome.splits option.splits sum.splits)

lemma handleSubmit_shape:
  "fetches (handleSubmit w ttl descr now oc) = [] \<or>
   (\<exists>rest. handleSubmit w ttl descr now oc =
      [PreventDefault, SetMessage None, SetTransactionHash JNull, SetIsSubmitting True] @
      Fetch (PostProposals (trim ttl) (trim descr) w) # rest @ [SetIsSubmitting False]
    \<and> fetches rest = [])"
proof (cases "truthy w \<and> snd (validateForm ttl descr)")
  case True
  obtain more where m: "fst (handleSubmit_try w ttl descr now oc) =
            [SetIsSubmitting True, Fetch (PostProposals (trim ttl) (trim descr) w)] @ more"
       "fetches more = []"
    using handleSubmit_try_shape by blast
  let ?h = "case snd (handleSubmit_try w ttl descr now oc) of None \<Rightarrow> []
            | Some e \<Rightarrow> [ConsoleError (lit ''Error creating proposal:'') (Some e),
                         SetMessage networkError]"
  have "handleSubmit w ttl descr now oc =
      [PreventDefault, SetMessage None, SetTransactionHash JNull, SetIsSubmitting True] @
      Fetch (PostProposals (trim ttl) (trim descr) w) # (more @ ?h) @ [SetIsSubmitting False]"
    using True m(1) by (simp add: handleSubmit_def validateForm_ok try_catch_finally_def)
  moreover have "fetches (more @ ?h) = []"
    using m(2) by (simp add: fetches_append fetches_Cons fetches_Nil split: option.splits)
  ultimately show ?thesis by blast
next
  case False
  then have "fetches (handleSubmit w ttl descr now oc) = []"
    using validateForm_bad [of ttl descr]
    by (auto simp add: handleSubmit_def fetches_Cons fetches_Nil fetches_append)
  then show ?thesis by simp
qed

lemma handleSubmit_flag:
  assumes "handleSubmit w ttl descr now oc = pre @ Fetch r # post"
  shows "isSubmitting (run pre s) \<and> fetches pre = [] \<and> fetches post = [] \<and> post \<noteq> []
       \<and> last post = SetIsSubmitting False
       \<and> \<not> isSubmitting (run (handleSubmit w ttl descr now oc) s)"
proof -
  from assms have "fetches (handleSubmit w ttl descr now oc) \<noteq> []"
    by (simp add: fetches_append fetches_Cons)
  with handleSubmit_shape [of w ttl descr now oc]
  obtain rest where sh: "handleSubmit w ttl descr now oc =
      [PreventDefault, SetMessage None, SetTransactionHash JNull, SetIsSubmitting True] @
      Fetch (PostProposals (trim ttl) (trim descr) w) # rest @ [SetIsSubmitting False]"
    and nf: "fetches rest = []"
    by blast
  have "fetches [PreventDefault, SetMessage None, SetTransactionHash JNull, SetIsSubmitting True] = []"
    by (simp add: fetches_Cons fetches_Nil)
  moreover have "fetches (rest @ [SetIsSubmitting False]) = []"
    using nf by (simp add: fetches_append fetches_Cons fetches_Nil)
  ultimately have "pre = [PreventDefault, SetMessage None, SetTransactionHash JNull, SetIsSubmitting True]
       \<and> r = PostProposals (trim ttl) (trim descr) w \<and> post = rest @ [SetIsSubmitting False]"
    using split_at_fetch sh assms by metis
  then show ?thesis
    using nf sh by (simp add: run_append run_Cons run_Nil fetches_append fetches_Cons fetches_Nil)
qed

lemma beforeAwait_handleSubmit:
  assumes "fetches (handleSubmit w ttl descr now oc) \<noteq> []"
  shows "isSubmitting (run (beforeAwait (handleSubmit w ttl descr now oc)) s)"
proof -
  from assms handleSubmit_shape [of w ttl descr now oc]
  obtain rest where sh: "handleSubmit w ttl descr now oc =
      [PreventDefault, SetMessage None, SetTransactionHash JNull, SetIsSubmitting True] @
      Fetch (PostProposals (trim ttl) (trim descr) w) # rest @ [SetIsSubmitting False]"
    by blast
  show ?thesis
    by (simp add: sh beforeAwait_def run_Cons run_Nil)
qed

lemma reachable_invariant:
  "reachable f \<Longrightarrow> length (outstanding f) \<le> 1 \<and> (outstanding f \<noteq> [] \<longrightarrow> isSubmitting (ui f))"
proof (induction rule: reachable.induct)
  case mounted
  show ?case by simp
next
  case (step f f')
  from step.hyps(2) show ?case
  proof (cases rule: form_step.cases)
    case (submit walletAddress tr title description now outcome)
    from submit(2) have "\<not> isSubmitting (ui f)" by (simp add: submitDisabled_def)
    with step.IH have "outstanding f = []" by blast
    then show ?thesis
      using submit(1,3) beforeAwait_handleSubmit [of walletAddress title description now outcome "ui f"]
      by simp
  next
    case (settle before k after)
    with step.IH have "before = [] \<and> after = []" by simp
    with settle show ?thesis by simp
  qed
qed

text \<open>
  C6. Whenever a run of \<open>handleSubmit\<close> reaches its \<open>fetch\<close> (the trace is
  \<open>pre @ Fetch r # post\<close>): \<open>isSubmitting\<close> is true after \<open>pre\<close>, that is, before the
  request; the request is the only one of the run; and the last effect of the run is
  \<open>setIsSubmitting(false)\<close>, whatever the outcome of the request, so the flag is false
  afterwards. The submit button is disabled in every state whose flag is true. For a
  mounted form it follows that at most one request is outstanding at any time, and
  that the flag is true while one is.
\<close>

theorem submitting_flag_protocol:
  "(handleSubmit walletAddress ttl descr now oc = pre @ Fetch r # post \<longrightarrow>
      isSubmitting (run pre s) \<and> fetches pre = [] \<and> fetches post = [] \<and> post \<noteq> []
      \<and> last post = SetIsSubmitting False
      \<and> \<not> isSubmitting (run (handleSubmit walletAddress ttl descr now oc) s))
   \<and> (isSubmitting s' \<longrightarrow> submitDisabled w' s')
   \<and> (reachable f \<longrightarrow>
        length (outstanding f) \<le> 1 \<and> (outstanding f \<noteq> [] \<longrightarrow> isSubmitting (ui f)))"
  using handleSubmit_flag [of walletAddress ttl descr now oc pre r post s] reachable_invariant [of f]
  by (simp add: submitDisabled_def)

theorem submitting_flag_protocol_witness:
  "handleSubmit sampleWallet sampleTitle sampleDescription 0 Rejected =
     [PreventDefault, SetMessage None, SetTransactionHash JNull, SetIsSubmitting True] @
     Fetch (PostProposals (trim sampleTitle) (trim sampleDescription) sampleWallet) #
     [ConsoleError (lit ''Error creating proposal:'') (Some FetchRejected),
      SetMessage networkError, SetIsSubmitting False]
   \<and> isSubmitting (run [PreventDefault, SetMessage None, SetTransactionHash JNull,
                         SetIsSubmitting True] initial_ui)
   \<and> \<not> isSubmitting (run (handleSubmit sampleWallet sampleTitle sampleDescription 0 Rejected)
                         initial_ui)
   \<and> isSubmitting (initial_ui\<lparr>isSubmitting := True\<rparr>)
   \<and> submitDisabled sampleWallet (initial_ui\<lparr>isSubmitting := True\<rparr>)
   \<and> reachable
        \<lparr>ui = run (beforeAwait (handleSubmit sampleWallet sampleTitle sampleDescription 0 Rejected))
                initial_ui,
         outstanding = [afterAwait (handleSubmit sampleWallet sampleTitle sampleDescription 0 Rejected)]\<rparr>
   \<and> isSubmitting (run (beforeAwait (handleSubmit sampleWallet sampleTitle sampleDescription 0 Rejected))
                      initial_ui)"
proof -
  let ?tr = "handleSubmit sampleWallet sampleTitle sampleDescription 0 Rejected"
  let ?pre = "[PreventDefault, SetMessage None, SetTransactionHash JNull, SetIsSubmitting True]"
  let ?post = "[ConsoleError (lit ''Error creating proposal:'') (Some FetchRejected),
                SetMessage networkError, SetIsSubmitting False]"
  let ?f = "\<lparr>ui = run (beforeAwait ?tr) initial_ui, outstanding = [afterAwait ?tr]\<rparr>"
  have ne: "lit ''W23TX7Z9'' \<noteq> []"
    by (simp add: lit_def)
  have valid: "validateForm sampleTitle sampleDescription = ([], True)"
    by (simp add: validateForm_def trim_def lit_def isWhiteSpace_def)
  have tr: "?tr = ?pre @ Fetch (PostProposals (trim sampleTitle) (trim sampleDescription) sampleWallet) # ?post"
    by (simp add: handleSubmit_def handleSubmit_try_def valid try_catch_finally_def ne)
  have "fetches ?tr \<noteq> []"
    by (simp add: tr fetches_append fetches_Cons fetches_Nil)
  moreover have "\<not> submitDisabled sampleWallet (ui \<lparr>ui = initial_ui, outstanding = []\<rparr>)"
    by (simp add: submitDisabled_def initial_ui_def lit_def)
  ultimately have "form_step \<lparr>ui = initial_ui, outstanding = []\<rparr> ?f"
    using form_step.submit [of sampleWallet "\<lparr>ui = initial_ui, outstanding = []\<rparr>" ?tr
        sampleTitle sampleDescription 0 Rejected]
    by simp
  then have r: "reachable ?f"
    using reachable.mounted reachable.step by blast
  show ?thesis
    using tr r
      submitting_flag_protocol [of sampleWallet sampleTitle sampleDescription 0 Rejected ?pre
        "PostProposals (trim sampleTitle) (trim sampleDescription) sampleWallet" ?post initial_ui
        "initial_ui\<lparr>isSubmitting := True\<rparr>" sampleWallet ?f]
    by simp
qed

subsection \<open>The vanilla application\<close>

text \<open>
  C8. \<open>AIService.getSentiment\<close> returns a score between \<open>-1\<close> and \<open>1\<close> for every input
  string: the result is \<open>Math.min(Math.max(score, -1), 1)\<close>. This holds for every
  value of the literal \<open>0.2\<close>, every \<open>+\<close> and \<open>-\<close> and every \<open>toLowerCase\<close>, as long as
  \<open>-1 \<le> 1\<close> in the order of the numbers.
\<close>

theorem getSentiment_bounds:
  assumes "(- 1 :: 'n::{linorder,zero,one,plus,minus,uminus}) \<le> 1"
  shows "- 1 \<le> getSentiment toLowerCase (fifth :: 'n) proposalText
       \<and> getSentiment toLowerCase fifth proposalText \<le> 1"
  using assms by (auto simp add: getSentiment_def Let_def min_def max_def)

theorem getSentiment_bounds_witness:
  "(- 1 :: rat) \<le> 1
   \<and> - 1 \<le> getSentiment (\<lambda>s. s) (1 / 5 :: rat) (lit ''upgrade and improve the budget'')
   \<and> getSentiment (\<lambda>s. s) (1 / 5 :: rat) (lit ''upgrade and improve the budget'') \<le> 1"
  using getSentiment_bounds [of "\<lambda>s. s" "1 / 5 :: rat" "lit ''upgrade and improve the budget''"]
  by simp

text \<open>With exact arithmetic, three positive words and one negative word score \<open>2/5\<close>.\<close>

lemma getSentiment_sample:
  "getSentiment (\<lambda>s. s) (1 / 5 :: rat) (lit ''upgrade and improve the budget, cut nothing'') = 2 / 5"
  by (simp add: getSentiment_def positiveWords_def negativeWords_def lit_def)

text \<open>\<open>findIndex\<close> returns the first position that satisfies the predicate.\<close>

lemma findIndex_None: "findIndex P xs = None \<longleftrightarrow> (\<forall>x\<in>set xs. \<not> P x)"
  by (induction xs) auto

lemma findIndex_Some:
  "findIndex P xs = Some i \<Longrightarrow> i < length xs \<and> P (xs ! i) \<and> (\<forall>j<i. \<not> P (xs ! j))"
proof (induction xs arbitrary: i)
  case Nil
  then show ?case by simp
next
  case (Cons x xs)
  show ?case
  proof (cases "P x")
    case True
    with Cons.prems show ?thesis by simp
  next
    case False
    with Cons.prems obtain k where k: "findIndex P xs = Some k" "i = Suc k" by auto
    from Cons.IH [OF k(1)] False k(2) show ?thesis
      by (auto simp: nth_Cons split: nat.splits)
  qed
qed

text \<open>Integers up to \<open>2^53\<close> in magnitude are doubles, so adding 1 below that is exact.\<close>

lemma bitLength_bound: "n < 2 ^ k \<Longrightarrow> bitLength n \<le> k"
proof (induction k arbitrary: n)
  case 0
  then show ?case by (simp add: bitLength.simps)
next
  case (Suc k)
  show ?case
  proof (cases "n = 0")
    case True
    then show ?thesis by (simp add: bitLength.simps)
  next
    case False
    from Suc.prems have "n div 2 < 2 ^ k" by simp
    from Suc.IH [OF this] False show ?thesis
      by (subst bitLength.simps) simp
  qed
qed

lemma roundToDouble_small: "\<bar>i\<bar> < 2 ^ 53 \<Longrightarrow> roundToDouble i = i"
proof -
  assume a: "\<bar>i\<bar> < 2 ^ 53"
  then have "nat \<bar>i\<bar> < 2 ^ 53" by (simp add: nat_less_iff)
  then have "bitLength (nat \<bar>i\<bar>) - 53 = 0"
    using bitLength_bound [of "nat \<bar>i\<bar>" 53] by simp
  then show ?thesis
    by (simp add: roundToDouble_def Let_def mult_sgn_abs)
qed

lemma bitLength_2_53: "bitLength 9007199254740992 = 54"
  by (simp add: bitLength.simps)

lemma roundToDouble_2_53: "roundToDouble 9007199254740992 = 9007199254740992"
  by (simp add: roundToDouble_def Let_def bitLength_2_53)

lemma jsIncrement_exact:
  assumes "- (2 ^ 53) \<le> x" and "x < 2 ^ 53"
  shows "jsIncrement x = x + 1"
proof (cases "x + 1 = 2 ^ 53")
  case True
  then show ?thesis
    using roundToDouble_2_53 by (simp add: jsIncrement_def jsAdd_def)
next
  case False
  with assms have "\<bar>x + 1\<bar> < 2 ^ 53" by simp
  then show ?thesis
    by (simp add: jsIncrement_def jsAdd_def roundToDouble_small)
qed

lemma bitLength_2_53_1: "bitLength 9007199254740993 = 54"
  by (simp add: bitLength.simps)

lemma jsIncrement_2_53: "jsIncrement 9007199254740992 = 9007199254740992"
  by (simp add: jsIncrement_def jsAdd_def roundToDouble_def Let_def bitLength_2_53_1)

lemma bitLength_2_53_3: "bitLength 9007199254740995 = 54"
  by (simp add: bitLength.simps)

lemma jsIncrement_tie_up: "jsIncrement 9007199254740994 = 9007199254740996"
  by (simp add: jsIncrement_def jsAdd_def roundToDouble_def Let_def bitLength_2_53_3)

lemma submitVote_proposals:
  "isConnected (user st) \<Longrightarrow>
   proposals (fst (submitVote numberToString proposalId vote genId now st)) =
     (case findIndex (\<lambda>p. proposal_id p = proposalId) (proposals st) of
        None \<Rightarrow> proposals st
      | Some i \<Rightarrow>
          if vote = lit ''yes''
          then (proposals st)[i := (proposals st ! i)\<lparr>votesYes := jsIncrement (votesYes (proposals st ! i))\<rparr>]
          else (proposals st)[i := (proposals st ! i)\<lparr>votesNo := jsIncrement (votesNo (proposals st ! i))\<rparr>])"
  by (simp add: submitVote_def setLoading_def addTransaction_def Let_def split: option.splits)

text \<open>
  C10 fails as stated: a tally is a double, and \<open>x++\<close> on the double \<open>2^53\<close> stores
  \<open>2^53\<close> again, since \<open>2^53 + 1\<close> is no double and the tie rounds to the even
  significand. Here the proposal that matches has \<open>votesYes = 2^53\<close> and the vote is
  \<open>'yes'\<close>: the proposals after \<open>submitVote\<close> are the proposals before.
\<close>

theorem submitVote_tally_counterexample:
  "isConnected (user (sampleStore True
      [sampleProposal 1042 840 120, sampleProposal 1041 9007199254740992 450] None))
   \<and> proposals (fst (submitVote toString 1041 (lit ''yes'') (lit ''K3J9Q0ZR1'') 1700000000000
        (sampleStore True
          [sampleProposal 1042 840 120, sampleProposal 1041 9007199254740992 450] None))) =
       [sampleProposal 1042 840 120, sampleProposal 1041 9007199254740992 450]"
  by (simp add: submitVote_def setLoading_def addTransaction_def lit_def jsIncrement_2_53)

text \<open>
  C10, amended. With the wallet connected, \<open>submitVote\<close> keeps the number of proposals.
  When no proposal has the id, the list is unchanged. When one has, then at the first
  position \<open>i\<close> with that id the proposal is the old one with \<open>votesYes\<close> replaced by
  the double \<open>votesYes + 1\<close> if \<open>vote\<close> is \<open>'yes'\<close>, and with \<open>votesNo\<close> replaced by the
  double \<open>votesNo + 1\<close> otherwise; that is the tally plus 1 whenever the tally \<open>t\<close> is an
  integer with \<open>-2^53 \<le> t < 2^53\<close>. All its other fields are as before, and the
  proposal at every other position is unchanged.
\<close>

theorem submitVote_frame:
  assumes "isConnected (user st)"
  shows "length (proposals (fst (submitVote numberToString proposalId vote genId now st))) =
           length (proposals st)
   \<and> ((\<forall>p \<in> set (proposals st). proposal_id p \<noteq> proposalId) \<longrightarrow>
        proposals (fst (submitVote numberToString proposalId vote genId now st)) = proposals st)
   \<and> ((\<exists>p \<in> set (proposals st). proposal_id p = proposalId) \<longrightarrow>
        (\<exists>i < length (proposals st).
           proposal_id (proposals st ! i) = proposalId
         \<and> (\<forall>j<i. proposal_id (proposals st ! j) \<noteq> proposalId)
         \<and> proposals (fst (submitVote numberToString proposalId vote genId now st)) ! i =
             (if vote = lit ''yes''
              then (proposals st ! i)\<lparr>votesYes := jsIncrement (votesYes (proposals st ! i))\<rparr>
              else (proposals st ! i)\<lparr>votesNo := jsIncrement (votesNo (proposals st ! i))\<rparr>)
         \<and> (vote = lit ''yes'' \<and> - (2 ^ 53) \<le> votesYes (proposals st ! i)
              \<and> votesYes (proposals st ! i) < 2 ^ 53 \<longrightarrow>
            proposals (fst (submitVote numberToString proposalId vote genId now st)) ! i =
              (proposals st ! i)\<lparr>votesYes := votesYes (proposals st ! i) + 1\<rparr>)
         \<and> (vote \<noteq> lit ''yes'' \<and> - (2 ^ 53) \<le> votesNo (proposals st ! i)
              \<and> votesNo (proposals st ! i) < 2 ^ 53 \<longrightarrow>
            proposals (fst (submitVote numberToString proposalId vote genId now st)) ! i =
              (proposals st ! i)\<lparr>votesNo := votesNo (proposals st ! i) + 1\<rparr>)
         \<and> (\<forall>j < length (proposals st). j \<noteq> i \<longrightarrow>
               proposals (fst (submitVote numberToString proposalId vote genId now st)) ! j =
                 proposals st ! j)))"
proof (cases "findIndex (\<lambda>p. proposal_id p = proposalId) (proposals st)")
  case None
  then have "\<forall>p \<in> set (proposals st). proposal_id p \<noteq> proposalId"
    by (simp add: findIndex_None)
  with None show ?thesis
    by (simp add: submitVote_proposals [OF assms])
next
  case (Some i)
  let ?ps = "proposals st"
  let ?ps' = "proposals (fst (submitVote numberToString proposalId vote genId now st))"
  from findIndex_Some [OF Some]
  have i: "i < length ?ps" "proposal_id (?ps ! i) = proposalId"
    "\<forall>j<i. proposal_id (?ps ! j) \<noteq> proposalId"
    by auto
  then have ex: "\<exists>p \<in> set ?ps. proposal_id p = proposalId"
    using nth_mem by blast
  have upd: "?ps' ! i =
             (if vote = lit ''yes''
              then (?ps ! i)\<lparr>votesYes := jsIncrement (votesYes (?ps ! i))\<rparr>
              else (?ps ! i)\<lparr>votesNo := jsIncrement (votesNo (?ps ! i))\<rparr>)"
    using i(1) by (simp add: submitVote_proposals [OF assms] Some)
  have yes: "vote = lit ''yes'' \<and> - (2 ^ 53) \<le> votesYes (?ps ! i) \<and> votesYes (?ps ! i) < 2 ^ 53 \<longrightarrow>
            ?ps' ! i = (?ps ! i)\<lparr>votesYes := votesYes (?ps ! i) + 1\<rparr>"
    using upd jsIncrement_exact [of "votesYes (?ps ! i)"] by auto
  have no: "vote \<noteq> lit ''yes'' \<and> - (2 ^ 53) \<le> votesNo (?ps ! i) \<and> votesNo (?ps ! i) < 2 ^ 53 \<longrightarrow>
            ?ps' ! i = (?ps ! i)\<lparr>votesNo := votesNo (?ps ! i) + 1\<rparr>"
    using upd jsIncrement_exact [of "votesNo (?ps ! i)"] by auto
  have others: "\<forall>j < length ?ps. j \<noteq> i \<longrightarrow> ?ps' ! j = ?ps ! j"
    by (simp add: submitVote_proposals [OF assms] Some)
  have len: "length ?ps' = length ?ps"
    by (simp add: submitVote_proposals [OF assms] Some)
  from i ex upd yes no others len show ?thesis by blast
qed

theorem submitVote_frame_witness:
  "isConnected (user (sampleStore True
      [sampleProposal 1042 840 120, sampleProposal 1041 300 450] None))
   \<and> proposals (fst (submitVote toString 1041 (lit ''yes'') (lit ''K3J9Q0ZR1'') 1700000000000
        (sampleStore True [sampleProposal 1042 840 120, sampleProposal 1041 300 450] None))) =
       [sampleProposal 1042 840 120, sampleProposal 1041 301 450]
   \<and> proposals (fst (submitVote toString 999 (lit ''yes'') (lit ''K3J9Q0ZR1'') 1700000000000
        (sampleStore True [sampleProposal 1042 840 120, sampleProposal 1041 300 450] None))) =
       [sampleProposal 1042 840 120, sampleProposal 1041 300 450]"
  using
    submitVote_frame [of "sampleStore True
        [sampleProposal 1042 840 120, sampleProposal 1041 300 450] None"
      toString 1041 "lit ''yes''" "lit ''K3J9Q0ZR1''" 1700000000000]
    submitVote_frame [of "sampleStore True
        [sampleProposal 1042 840 120, sampleProposal 1041 300 450] None"
      toString 999 "lit ''yes''" "lit ''K3J9Q0ZR1''" 1700000000000]
  by (simp add: submitVote_def setLoading_def addTransaction_def jsIncrement_exact)

text \<open>Without a connected wallet \<open>submitVote\<close> changes nothing and returns \<open>undefined\<close>.\<close>

lemma submitVote_not_connected:
  "\<not> isConnected (user st) \<Longrightarrow>
     submitVote numberToString proposalId vote genId now st =
       (st, [Toast (lit ''Please connect wallet first'') (lit ''error'')], JUndefined)"
  by (simp add: submitVote_def)

lemma percentOf_eq:
  "percentOf hostQuotient hostRoundPercent votes tot =
     Some (if tot = 0 then 0 else hostRoundPercent (hostQuotient votes tot))"
  by (simp add: percentOf_def checked_div_def)

lemma jsAdd_zero: "a + b = 0 \<Longrightarrow> jsAdd a b = 0"
  by (simp add: jsAdd_def roundToDouble_def Let_def)

text \<open>
  C9. Rendering the vote percentages never divides by zero. \<open>ProposalDetail\<close> always
  yields a view, and for a proposal whose \<open>votesYes + votesNo\<close> is 0 both percentages
  are 0. In VotingPanel the denominator of both bar widths is at least 1, so both
  widths are defined. Both hold whatever the host's double operations compute.
\<close>

theorem percentages_never_divide_by_zero:
  "ProposalDetail hostQuotient hostRoundPercent st \<noteq> None
   \<and> (find (\<lambda>p. Some (proposal_id p) = activeProposalId st) (proposals st) = Some p
        \<and> votesYes p + votesNo p = 0 \<longrightarrow>
      ProposalDetail hostQuotient hostRoundPercent st = Some (Detail 0 0 0))
   \<and> 1 \<le> barDenominator hostAdd yesVotes noVotes
   \<and> yesBarWidth hostAdd barQuotient hostTimes100 yesVotes noVotes \<noteq> None
   \<and> noBarWidth hostAdd barQuotient hostTimes100 yesVotes noVotes \<noteq> None"
proof -
  have a: "ProposalDetail hostQuotient hostRoundPercent st \<noteq> None"
    by (simp add: ProposalDetail_def Let_def percentOf_eq split: option.splits)
  have b: "find (\<lambda>p. Some (proposal_id p) = activeProposalId st) (proposals st) = Some p
        \<and> votesYes p + votesNo p = 0 \<longrightarrow>
      ProposalDetail hostQuotient hostRoundPercent st = Some (Detail 0 0 0)"
    by (simp add: ProposalDetail_def Let_def percentOf_def jsAdd_zero)
  have c: "1 \<le> barDenominator hostAdd yesVotes noVotes"
    by (simp add: barDenominator_def)
  then have "barDenominator hostAdd yesVotes noVotes \<noteq> 0" by auto
  then have d: "yesBarWidth hostAdd barQuotient hostTimes100 yesVotes noVotes \<noteq> None
      \<and> noBarWidth hostAdd barQuotient hostTimes100 yesVotes noVotes \<noteq> None"
    by (simp add: yesBarWidth_def noBarWidth_def checked_div_def)
  from a b c d show ?thesis by blast
qed

theorem percentages_never_divide_by_zero_witness:
  "find (\<lambda>p. Some (proposal_id p) = activeProposalId
            (sampleStore True [sampleProposal 1042 840 120, sampleProposal 1041 0 0] (Some 1041)))
     (proposals (sampleStore True [sampleProposal 1042 840 120, sampleProposal 1041 0 0] (Some 1041)))
     = Some (sampleProposal 1041 0 0)
   \<and> votesYes (sampleProposal 1041 0 0) + votesNo (sampleProposal 1041 0 0) = 0
   \<and> ProposalDetail (\<lambda>a b. (of_int a / of_int b :: rat)) (\<lambda>q. \<lfloor>q * 100 + 1 / 2\<rfloor>)
        (sampleStore True [sampleProposal 1042 840 120, sampleProposal 1041 0 0]
        (Some 1041)) = Some (Detail 0 0 0)
   \<and> 1 \<le> barDenominator (\<lambda>a b. a + b) None (Some 0)
   \<and> yesBarWidth (\<lambda>a b. a + b) (\<lambda>a b. a / b) (\<lambda>q. q * 100) None (Some 0) \<noteq> None"
  using percentages_never_divide_by_zero [of "\<lambda>a b. (of_int a / of_int b :: rat)"
      "\<lambda>q. \<lfloor>q * 100 + 1 / 2\<rfloor>"
      "sampleStore True [sampleProposal 1042 840 120, sampleProposal 1041 0 0] (Some 1041)"
      "sampleProposal 1041 0 0" "\<lambda>a b. a + b" None "Some 0" "\<lambda>a b. a / b" "\<lambda>q. q * 100"]
  by simp

end
